theory Spec2Isabelle
  imports Main "HOL-Library.Word"
begin

section \<open>JavaScript values used by lib/rpi-cam.js\<close>

text \<open>
  The class \<open>LiveStream\<close> of lib/rpi-cam.js is embedded function by function. Its
  setters receive untyped JavaScript arguments and push them through \<open>parseInt\<close>, so the
  argument values, the numbers \<open>parseInt\<close> returns and the string operations the class
  calls are modelled first.

  A number is \<open>NaN\<close> or an integer: \<open>JNum (Num n)\<close> stands for the integer-valued
  Number \<open>n\<close>. Fractions and infinities are not values of this model. Below \<open>10 ^ 21\<close>
  a Number that is an integer is written in plain decimal digits and read back by
  \<open>parseInt\<close> as the same Number. From \<open>10 ^ 21\<close> on the digits modelled are those of
  the integer itself, which are the digits JavaScript writes when no shorter run
  identifies the Number, as for \<open>10 ^ 21\<close>, written \<open>1e+21\<close>.
  Strings are sequences of ASCII code units.
\<close>

datatype number = NaN | Num int

datatype js_value = JUndefined | JNull | JNum number | JStr string

text \<open>The relational operators \<open><\<close>, \<open>>\<close> and \<open><=\<close>: every comparison with \<open>NaN\<close> is false.\<close>

fun js_lt :: "number \<Rightarrow> int \<Rightarrow> bool" where
  "js_lt NaN k = False"
| "js_lt (Num n) k = (n < k)"

fun js_gt :: "number \<Rightarrow> int \<Rightarrow> bool" where
  "js_gt NaN k = False"
| "js_gt (Num n) k = (n > k)"

fun js_le :: "number \<Rightarrow> int \<Rightarrow> bool" where
  "js_le NaN k = False"
| "js_le (Num n) k = (n \<le> k)"

text \<open>\<open>ToBoolean\<close>, the test of \<open>(port) ? ... : ...\<close>.\<close>

fun truthy :: "js_value \<Rightarrow> bool" where
  "truthy JUndefined = False"
| "truthy JNull = False"
| "truthy (JNum NaN) = False"
| "truthy (JNum (Num n)) = (n \<noteq> 0)"
| "truthy (JStr s) = (s \<noteq> [])"

text \<open>Strict equality with the number literal \<open>1\<close>, the test \<open>v === 1\<close>.\<close>

fun strict_eq_num :: "js_value \<Rightarrow> int \<Rightarrow> bool" where
  "strict_eq_num (JNum (Num n)) k = (n = k)"
| "strict_eq_num v k = False"

subsection \<open>Numbers to strings\<close>

definition digit_char :: "nat \<Rightarrow> char" where
  "digit_char d = char_of (48 + d)"

fun nat_digits :: "nat \<Rightarrow> string" where
  "nat_digits n = (if n < 10 then [digit_char n] else nat_digits (n div 10) @ [digit_char (n mod 10)])"

text \<open>
  From \<open>10 ^ 21\<close> on, the conversion writes exponent notation: the first significant
  digit, the others after a point, and the decimal exponent.
\<close>

definition exponent_form :: "nat \<Rightarrow> string" where
  "exponent_form m =
     (let ds = nat_digits m;
          significant = rev (dropWhile (\<lambda>c. c = CHR ''0'') (rev ds))
      in case significant of
           [] \<Rightarrow> ''0''
         | d # more \<Rightarrow>
             d # (if more = [] then [] else CHR ''.'' # more) @ ''e+'' @ nat_digits (length ds - 1))"

definition nat_toString :: "nat \<Rightarrow> string" where
  "nat_toString m = (if m < 10 ^ 21 then nat_digits m else exponent_form m)"

definition int_toString :: "int \<Rightarrow> string" where
  "int_toString n = (if n < 0 then CHR ''-'' # nat_toString (nat (- n)) else nat_toString (nat n))"

fun number_toString :: "number \<Rightarrow> string" where
  "number_toString NaN = ''NaN''"
| "number_toString (Num n) = int_toString n"

fun toString :: "js_value \<Rightarrow> string" where
  "toString JUndefined = ''undefined''"
| "toString JNull = ''null''"
| "toString (JNum x) = number_toString x"
| "toString (JStr s) = s"

subsection \<open>\<open>parseInt\<close> with no radix argument\<close>

text \<open>
  \<open>parseInt(v)\<close> converts \<open>v\<close> to a string, skips leading white space, reads an optional
  sign, switches to radix 16 after a \<open>0x\<close> or \<open>0X\<close> prefix, and reads the longest run of
  digits of the radix. With no digit the result is \<open>NaN\<close>. (The result \<open>-0\<close> is
  modelled as \<open>0\<close>: the two compare alike.)
\<close>

definition is_white_space :: "char \<Rightarrow> bool" where
  "is_white_space c = (of_char c \<in> {9, 10, 11, 12, 13, 32 :: nat})"

definition digit_value :: "char \<Rightarrow> nat option" where
  "digit_value c =
     (let k = (of_char c :: nat) in
      if 48 \<le> k \<and> k \<le> 57 then Some (k - 48)
      else if 97 \<le> k \<and> k \<le> 122 then Some (k - 87)
      else if 65 \<le> k \<and> k \<le> 90 then Some (k - 55)
      else None)"

definition is_radix_digit :: "nat \<Rightarrow> char \<Rightarrow> bool" where
  "is_radix_digit r c = (case digit_value c of None \<Rightarrow> False | Some d \<Rightarrow> d < r)"

definition radix_value :: "nat \<Rightarrow> string \<Rightarrow> nat" where
  "radix_value r z = foldl (\<lambda>acc c. acc * r + (case digit_value c of None \<Rightarrow> 0 | Some d \<Rightarrow> d)) 0 z"

definition parse_digits :: "nat \<Rightarrow> string \<Rightarrow> nat option" where
  "parse_digits r s =
     (let z = takeWhile (is_radix_digit r) s in
      if z = [] then None else Some (radix_value r z))"

fun strip_sign :: "string \<Rightarrow> int \<times> string" where
  "strip_sign [] = (1, [])"
| "strip_sign (c # s) =
     (if c = CHR ''-'' then (- 1, s) else if c = CHR ''+'' then (1, s) else (1, c # s))"

fun strip_prefix :: "string \<Rightarrow> nat \<times> string" where
  "strip_prefix (a # b # s) =
     (if a = CHR ''0'' \<and> (b = CHR ''x'' \<or> b = CHR ''X'') then (16, s) else (10, a # b # s))"
| "strip_prefix s = (10, s)"

definition parseInt_string :: "string \<Rightarrow> number" where
  "parseInt_string inputString =
     (let (sign, s1) = strip_sign (dropWhile is_white_space inputString);
          (r, s2) = strip_prefix s1
      in case parse_digits r s2 of None \<Rightarrow> NaN | Some m \<Rightarrow> Num (sign * int m))"

definition parseInt :: "js_value \<Rightarrow> number" where
  "parseInt v = parseInt_string (toString v)"

subsection \<open>String methods\<close>

text \<open>\<open>trim\<close>, \<open>toUpperCase\<close>, \<open>toLowerCase\<close> and \<open>startsWith('/')\<close> on ASCII strings.\<close>

definition trim :: "string \<Rightarrow> string" where
  "trim s = rev (dropWhile is_white_space (rev (dropWhile is_white_space s)))"

definition upper_char :: "char \<Rightarrow> char" where
  "upper_char c = (let k = (of_char c :: nat) in if 97 \<le> k \<and> k \<le> 122 then char_of (k - 32) else c)"

definition lower_char :: "char \<Rightarrow> char" where
  "lower_char c = (let k = (of_char c :: nat) in if 65 \<le> k \<and> k \<le> 90 then char_of (k + 32) else c)"

definition toUpperCase :: "string \<Rightarrow> string" where
  "toUpperCase s = map upper_char s"

definition toLowerCase :: "string \<Rightarrow> string" where
  "toLowerCase s = map lower_char s"

definition startsWith_slash :: "string \<Rightarrow> bool" where
  "startsWith_slash s = (case s of [] \<Rightarrow> False | c # _ \<Rightarrow> c = CHR ''/'')"

subsection \<open>Base64\<close>

text \<open>\<open>Buffer.from(frame).toString('base64')\<close>: the standard alphabet, padded with \<open>=\<close>.\<close>

definition b64_alphabet :: string where
  "b64_alphabet = ''ABCDEFGHIJKLMNOPQRSTUVWXYZabcdefghijklmnopqrstuvwxyz0123456789+/''"

definition b64_char :: "nat \<Rightarrow> char" where
  "b64_char i = b64_alphabet ! (i mod 64)"

fun base64_nat :: "nat list \<Rightarrow> string" where
  "base64_nat [] = []"
| "base64_nat [a] = [b64_char (a div 4), b64_char ((a mod 4) * 16), CHR ''='', CHR ''='']"
| "base64_nat [a, b] =
     [b64_char (a div 4), b64_char ((a mod 4) * 16 + b div 16), b64_char ((b mod 16) * 4), CHR ''='']"
| "base64_nat (a # b # c # rest) =
     [b64_char (a div 4), b64_char ((a mod 4) * 16 + b div 16),
      b64_char ((b mod 16) * 4 + c div 64), b64_char (c mod 64)] @ base64_nat rest"

type_synonym frame = "8 word list"

definition base64 :: "frame \<Rightarrow> string" where
  "base64 buf = base64_nat (map unat buf)"

section \<open>The state of a \<open>LiveStream\<close> object\<close>

text \<open>
  The fields are those the constructor assigns. \<open>config\<close> holds what the setters store,
  the value of \<open>parseInt\<close>, which may be \<open>NaN\<close>. An express application is modelled by
  what the class can do to it: \<open>listen\<close> and \<open>get\<close>. The camera module is an external
  singleton; the field \<open>camera\<close> is the reference to it or \<open>null\<close>. The messages the
  class prints in verbose mode go to the console, not to the object, and are left out.
\<close>

record stream_config =
  width :: number
  height :: number
  fps :: number
  encoding :: string
  quality :: number

record express_app =
  listening :: "number option"
  routes :: "string list"

record server_binding =
  app :: "express_app option"
  port :: number

record stream_status =
  started :: bool
  paused :: bool
  stopped :: bool

datatype camera_module = RaspberryPiCameraNative

record livestream =
  camera :: "camera_module option"
  server :: server_binding
  config :: stream_config
  mimeType :: "string option"
  pathname :: string
  lastFrame :: "frame option"
  verboseMode :: bool
  streamStatus :: stream_status

definition supportedEncodingTypes :: "string list" where
  "supportedEncodingTypes = [''JPEG'', ''GIF'', ''PNG'', ''PPM'', ''TGA'', ''BMP'']"

definition default_config :: stream_config where
  "default_config =
     \<lparr>width = Num 1280, height = Num 720, fps = Num 16, encoding = ''JPEG'', quality = Num 25\<rparr>"

definition LiveStream :: "stream_config \<Rightarrow> livestream" where
  "LiveStream cfg =
     \<lparr>camera = None,
      server = \<lparr>app = None, port = Num 8000\<rparr>,
      config = cfg,
      mimeType = None,
      pathname = ''/live.stream'',
      lastFrame = None,
      verboseMode = False,
      streamStatus = \<lparr>started = False, paused = False, stopped = False\<rparr>\<rparr>"

text \<open>
  The class throws \<open>new Error(message)\<close> from two kinds of places, named here as the
  specification names them: the range and membership checks of the setters
  (\<open>ValidationError\<close>) and the state guards of the lifecycle methods and of
  \<open>getLastFrame\<close> (\<open>LifecycleError\<close>). \<open>ReferenceError\<close> and \<open>TypeError\<close> are raised by
  the runtime; \<open>ExternalError\<close> is an exception thrown by \<open>require\<close>, express or the
  camera module.
\<close>

datatype error =
    ValidationError string
  | LifecycleError string
  | ReferenceError string
  | TypeError string
  | ExternalError

section \<open>Configuration and validation\<close>

text \<open>A parameter with a default value takes the default when the argument is \<open>undefined\<close>.\<close>

definition default_arg :: "js_value \<Rightarrow> js_value \<Rightarrow> js_value" where
  "default_arg d v = (if v = JUndefined then d else v)"

definition register :: "express_app \<Rightarrow> js_value \<Rightarrow> livestream \<Rightarrow> livestream" where
  "register a port_arg s =
     (let p = default_arg JNull port_arg;
          s1 = s\<lparr>server := (server s)\<lparr>app := Some a\<rparr>\<rparr>
      in s1\<lparr>server := (server s1)\<lparr>port := (if truthy p then parseInt p else port (server s1))\<rparr>\<rparr>)"

definition setPort_warns :: "js_value \<Rightarrow> bool" where
  "setPort_warns p = js_le (parseInt p) 1023"

definition setPort :: "js_value \<Rightarrow> livestream \<Rightarrow> livestream" where
  "setPort p s = s\<lparr>server := (server s)\<lparr>port := parseInt p\<rparr>\<rparr>"

definition setPathname :: "string \<Rightarrow> livestream \<Rightarrow> livestream" where
  "setPathname src s =
     s\<lparr>pathname := (if startsWith_slash src then trim src else CHR ''/'' # trim src)\<rparr>"

definition setVerboseMode :: "js_value \<Rightarrow> livestream \<Rightarrow> livestream" where
  "setVerboseMode mode s = s\<lparr>verboseMode := truthy mode\<rparr>"

definition setWidth :: "js_value \<Rightarrow> js_value \<Rightarrow> livestream \<Rightarrow> error + livestream" where
  "setWidth w v_arg s =
     (let v = default_arg (JNum (Num 2)) v_arg;
          widthVal = parseInt w;
          maxWidth = (if strict_eq_num v 1 then 2592 else 3280)
      in if js_lt widthVal 32 \<or> js_gt widthVal maxWidth
         then Inl (ValidationError (''[-] Maximum width must between 32 and '' @ int_toString maxWidth
                     @ '' for v'' @ toString v @ '' cameras.''))
         else Inr (s\<lparr>config := (config s)\<lparr>width := widthVal\<rparr>\<rparr>))"

definition setHeight :: "js_value \<Rightarrow> js_value \<Rightarrow> livestream \<Rightarrow> error + livestream" where
  "setHeight h v_arg s =
     (let v = default_arg (JNum (Num 2)) v_arg;
          heightVal = parseInt h;
          maxHeight = (if strict_eq_num v 1 then 1944 else 2464)
      in if js_lt heightVal 16 \<or> js_gt heightVal maxHeight
         then Inl (ValidationError (''[-] Maximum height must between 16 and '' @ int_toString maxHeight
                     @ '' for v'' @ toString v @ '' cameras.''))
         else Inr (s\<lparr>config := (config s)\<lparr>height := heightVal\<rparr>\<rparr>))"

definition setFPS :: "js_value \<Rightarrow> livestream \<Rightarrow> error + livestream" where
  "setFPS f s =
     (let fpsVal = parseInt f
      in if js_lt fpsVal 1 \<or> js_gt fpsVal 90
         then Inl (ValidationError ''[-] FPS value must between 1 and 90.'')
         else Inr (s\<lparr>config := (config s)\<lparr>fps := fpsVal\<rparr>\<rparr>))"

definition setQuality :: "js_value \<Rightarrow> livestream \<Rightarrow> error + livestream" where
  "setQuality q s =
     (let qltyVal = parseInt q
      in if js_lt qltyVal 1 \<or> js_gt qltyVal 100
         then Inl (ValidationError ''[-] Quality value must between 1 and 100.'')
         else Inr (s\<lparr>config := (config s)\<lparr>quality := qltyVal\<rparr>\<rparr>))"

text \<open>
  In \<open>setEncoding\<close> the identifier \<open>supportedEncodingTypes\<close> is written without
  \<open>LiveStream.\<close> in front. A static field is a property of the class, not a variable, and
  neither the method, the class body nor the module declares a variable of that name, so
  the identifier is looked up on the global object: \<open>globals\<close> gives the array-valued
  properties of the global object, and an unbound name raises \<open>ReferenceError\<close>. Node's
  own global object has no property of that name.
\<close>

type_synonym global_object = "string \<Rightarrow> string list option"

definition node_globals :: global_object where
  "node_globals = (\<lambda>x. None)"

definition resolve_identifier :: "global_object \<Rightarrow> string \<Rightarrow> error + string list" where
  "resolve_identifier globals x =
     (case globals x of
        None \<Rightarrow> Inl (ReferenceError (x @ '' is not defined''))
      | Some xs \<Rightarrow> Inr xs)"

definition setEncoding :: "global_object \<Rightarrow> string \<Rightarrow> livestream \<Rightarrow> error + livestream" where
  "setEncoding globals enc s =
     (let encVal = toUpperCase (trim enc)
      in case resolve_identifier globals ''supportedEncodingTypes'' of
           Inl e \<Rightarrow> Inl e
         | Inr types \<Rightarrow>
             if encVal \<notin> set types
             then Inl (ValidationError (''[-] Encoding type '' @ [CHR 0x27] @ encVal @ [CHR 0x27]
                         @ '' is not supported.''))
             else Inr (s\<lparr>config := (config s)\<lparr>encoding := encVal\<rparr>,
                        mimeType := Some (''image/'' @ toLowerCase encVal)\<rparr>))"

fun join :: "string \<Rightarrow> string list \<Rightarrow> string" where
  "join sep [] = []"
| "join sep [x] = x"
| "join sep (x # y # xs) = x @ sep @ join sep (y # xs)"

definition getSupportedEncodingTypes :: string where
  "getSupportedEncodingTypes = join '','' supportedEncodingTypes"

section \<open>Last frame and snapshot\<close>

definition getLastFrame :: "livestream \<Rightarrow> error + frame option" where
  "getLastFrame s =
     (if \<not> started (streamStatus s)
      then Inl (LifecycleError
        ''[-] Last frame cannot be captured because the livestream has not started yet'')
      else Inr (lastFrame s))"

text \<open>
  A promise is resolved, rejected, or still pending when the method's work is done.
  In a template string \<open>null\<close> is written \<open>null\<close>.
\<close>

datatype 'a promise = Resolved 'a | Rejected error | Pending

definition mime_toString :: "string option \<Rightarrow> string" where
  "mime_toString m = (case m of None \<Rightarrow> ''null'' | Some t \<Rightarrow> t)"

definition getSnapshot :: "livestream \<Rightarrow> string option promise" where
  "getSnapshot s =
     (case lastFrame s of
        Some buf \<Rightarrow> Resolved (Some (''data:'' @ mime_toString (mimeType s) @ '';base64,'' @ base64 buf))
      | None \<Rightarrow> Resolved None)"

section \<open>Lifecycle\<close>

text \<open>
  The camera module and express answer a call by invoking the callback (\<open>Fires\<close>), by
  throwing (\<open>Throws\<close>) or by never invoking the callback (\<open>Silent\<close>). What they do is
  not decided by the class, so each lifecycle method takes the answer as a parameter and
  returns the state of the promise together with the state of the object once the
  method's work, its callback included, is done. The promise of \<open>start\<close> is resolved
  by the first request on the route, with the host name of that request:
  \<open>first_client\<close> is that host name, or \<open>None\<close> when no client ever asks. The
  request itself, which subscribes the client, is the event \<open>Request\<close> below.
\<close>

datatype reply = Fires | Throws | Silent

record start_env =
  camera_module_loads :: bool
  express_loads :: bool
  listen_reply :: reply
  start_reply :: reply
  first_client :: "string option"

text \<open>
  \<open>#initialize\<close>: load the camera module; with no registered application create one
  and listen on the stored port, resolving in the callback of \<open>listen\<close>.
\<close>

definition initialize :: "start_env \<Rightarrow> livestream \<Rightarrow> unit promise \<times> livestream" where
  "initialize env s =
     (if \<not> camera_module_loads env then (Rejected ExternalError, s)
      else
        let s1 = s\<lparr>camera := Some RaspberryPiCameraNative\<rparr> in
        case app (server s1) of
          None \<Rightarrow>
            if \<not> express_loads env then (Rejected ExternalError, s1)
            else
              let s2 = s1\<lparr>server := (server s1)\<lparr>app := Some \<lparr>listening = None, routes = []\<rparr>\<rparr>\<rparr> in
              (case listen_reply env of
                 Throws \<Rightarrow> (Rejected ExternalError, s2)
               | Silent \<Rightarrow> (Pending, s2)
               | Fires \<Rightarrow>
                   (Resolved (),
                    s2\<lparr>server := (server s2)
                        \<lparr>app := Some \<lparr>listening = Some (port (server s2)), routes = []\<rparr>\<rparr>\<rparr>))
        | Some a \<Rightarrow> (Resolved (), s1))"

text \<open>
  \<open>#listen\<close> registers the route \<open>app.get(pathname, handler)\<close>. Its promise resolves
  with the host name of a request, so only once a client has asked for the route.
\<close>

definition listen :: "livestream \<Rightarrow> error + livestream" where
  "listen s =
     (case app (server s) of
        None \<Rightarrow> Inl (TypeError ''Cannot read properties of null (reading get)'')
      | Some a \<Rightarrow> Inr (s\<lparr>server := (server s)\<lparr>app := Some (a\<lparr>routes := routes a @ [pathname s]\<rparr>)\<rparr>\<rparr>))"

definition stream_url :: "string \<Rightarrow> livestream \<Rightarrow> string" where
  "stream_url ip s = ''http://'' @ ip @ '':'' @ number_toString (port (server s)) @ pathname s"

definition start :: "start_env \<Rightarrow> livestream \<Rightarrow> string promise \<times> livestream" where
  "start env s =
     (if stopped (streamStatus s)
      then (Rejected (LifecycleError ''[-] The stream cannot be started after it has been stopped''), s)
      else
        case initialize env s of
          (Rejected e, s1) \<Rightarrow> (Rejected e, s1)
        | (Pending, s1) \<Rightarrow> (Pending, s1)
        | (Resolved u, s1) \<Rightarrow>
            (case camera s1 of
               None \<Rightarrow> (Rejected (TypeError ''Cannot read properties of null (reading start)''), s1)
             | Some c \<Rightarrow>
                 (case start_reply env of
                    Throws \<Rightarrow> (Rejected ExternalError, s1)
                  | Silent \<Rightarrow> (Pending, s1)
                  | Fires \<Rightarrow>
                      let s2 = s1\<lparr>streamStatus := (streamStatus s1)\<lparr>started := True\<rparr>\<rparr> in
                      (case listen s2 of
                         Inl e \<Rightarrow> (Pending, s2)
                       | Inr s3 \<Rightarrow>
                           (case first_client env of
                              None \<Rightarrow> (Pending, s3)
                            | Some ip \<Rightarrow> (Resolved (stream_url ip s3), s3))))))"

definition pause :: "reply \<Rightarrow> livestream \<Rightarrow> unit promise \<times> livestream" where
  "pause r s =
     (if \<not> started (streamStatus s)
      then (Rejected (LifecycleError
              ''[-] The stream cannot be paused because it has not been started yet''), s)
      else
        case camera s of
          None \<Rightarrow> (Rejected (TypeError ''Cannot read properties of null (reading pause)''), s)
        | Some c \<Rightarrow>
            (case r of
               Throws \<Rightarrow> (Rejected ExternalError, s)
             | Silent \<Rightarrow> (Pending, s)
             | Fires \<Rightarrow> (Resolved (), s\<lparr>streamStatus := (streamStatus s)\<lparr>paused := True\<rparr>\<rparr>)))"

definition resume :: "reply \<Rightarrow> livestream \<Rightarrow> unit promise \<times> livestream" where
  "resume r s =
     (if \<not> paused (streamStatus s)
      then (Rejected (LifecycleError
              ''[-] The stream cannot be resumed because it has not been paused''), s)
      else
        case camera s of
          None \<Rightarrow> (Rejected (TypeError ''Cannot read properties of null (reading resume)''), s)
        | Some c \<Rightarrow>
            (case r of
               Throws \<Rightarrow> (Rejected ExternalError, s)
             | Silent \<Rightarrow> (Pending, s)
             | Fires \<Rightarrow> (Resolved (), s\<lparr>streamStatus := (streamStatus s)\<lparr>paused := False\<rparr>\<rparr>)))"

definition stop :: "reply \<Rightarrow> livestream \<Rightarrow> unit promise \<times> livestream" where
  "stop r s =
     (if \<not> started (streamStatus s)
      then (Rejected (LifecycleError
              ''[-] The stream cannot be stopped because it has not been started yet''), s)
      else
        case camera s of
          None \<Rightarrow> (Rejected (TypeError ''Cannot read properties of null (reading stop)''), s)
        | Some c \<Rightarrow>
            (case r of
               Throws \<Rightarrow> (Rejected ExternalError, s)
             | Silent \<Rightarrow> (Pending, s)
             | Fires \<Rightarrow>
                 (Resolved (),
                  s\<lparr>streamStatus := (streamStatus s)\<lparr>stopped := True, started := False\<rparr>,
                    camera := None\<rparr>)))"

text \<open>
  The four states of the specification, read off the three flags: \<open>stopped\<close> once the
  flag \<open>stopped\<close> is set, otherwise \<open>paused\<close> or \<open>started\<close> while \<open>started\<close> is set, and
  \<open>idle\<close> before.
\<close>

datatype lifecycle = Idle | Started | Paused | Stopped

definition lifecycle_state :: "livestream \<Rightarrow> lifecycle" where
  "lifecycle_state s =
     (if stopped (streamStatus s) then Stopped
      else if started (streamStatus s) then (if paused (streamStatus s) then Paused else Started)
      else Idle)"

section \<open>Frame fan-out\<close>

text \<open>
  A connection is one request on the route: its response stream and the frame handler
  bound to it. A response stream that is not \<open>writable\<close> throws on \<open>write\<close>. The
  listeners of the camera module's \<open>frame\<close> event belong to the module, not to the
  \<open>LiveStream\<close> object, so the world pairs the object with the list of subscribed
  connections, in the order of subscription, and with the global object.
\<close>

datatype chunk = Text string | Bytes frame

record connection =
  conn_id :: nat
  hostname :: string
  writable :: bool
  head :: "(nat \<times> (string \<times> string) list) option"
  written :: "chunk list"

record world =
  stream :: livestream
  frame_listeners :: "connection list"
  globals :: global_object

definition part_header :: "livestream \<Rightarrow> frame \<Rightarrow> string" where
  "part_header s frameData =
     ''--livestream'' @ [CHR 0x0A] @ ''Content-Type: '' @ mime_toString (mimeType s) @ [CHR 0x0A]
       @ ''Content-length: '' @ nat_digits (length frameData) @ [CHR 0x0A, CHR 0x0A]"

text \<open>
  \<open>frameHandler\<close>: the assignment to \<open>lastFrame\<close> comes first, so it stays when a
  \<open>write\<close> throws and the handler returns \<open>false\<close>.
\<close>

definition frameHandler :: "frame \<Rightarrow> connection \<Rightarrow> livestream \<Rightarrow> bool \<times> connection \<times> livestream" where
  "frameHandler frameData c s =
     (let s1 = s\<lparr>lastFrame := Some frameData\<rparr> in
      if writable c
      then (True, c\<lparr>written := written c @ [Text (part_header s1 frameData), Bytes frameData]\<rparr>, s1)
      else (False, c, s1))"

text \<open>A frame event of the camera module calls every subscribed handler in turn.\<close>

fun emit_frame :: "frame \<Rightarrow> connection list \<Rightarrow> livestream \<Rightarrow> connection list \<times> livestream" where
  "emit_frame frameData [] s = ([], s)"
| "emit_frame frameData (c # cs) s =
     (case frameHandler frameData c s of
        (ok, c1, s1) \<Rightarrow> (case emit_frame frameData cs s1 of (cs1, s2) \<Rightarrow> (c1 # cs1, s2)))"

definition stream_headers :: "(string \<times> string) list" where
  "stream_headers =
     [(''Cache-Control'', ''no-store, no-cache, must-revalidate, pre-check=0, post-check=0, max-age=0''),
      (''Pragma'', ''no-cache''),
      (''Connection'', ''close''),
      (''Content-Type'', ''multipart/x-mixed-replace; boundary=--livestream'')]"

text \<open>
  The route handler: write the head, then subscribe the connection's frame handler with
  \<open>this.camera.on\<close>, which throws when \<open>camera\<close> is \<open>null\<close>.
\<close>

definition route_handler :: "connection \<Rightarrow> world \<Rightarrow> error + world" where
  "route_handler c w =
     (let c1 = c\<lparr>head := Some (200, stream_headers)\<rparr> in
      case camera (stream w) of
        None \<Rightarrow> Inl (TypeError ''Cannot read properties of null (reading on)'')
      | Some m \<Rightarrow> Inr (w\<lparr>frame_listeners := frame_listeners w @ [c1]\<rparr>))"

text \<open>The \<open>close\<close> event of a request removes that connection's handler.\<close>

definition on_close :: "nat \<Rightarrow> world \<Rightarrow> world" where
  "on_close i w = w\<lparr>frame_listeners := filter (\<lambda>c. conn_id c \<noteq> i) (frame_listeners w)\<rparr>"

definition on_frame :: "frame \<Rightarrow> world \<Rightarrow> world" where
  "on_frame frameData w =
     (case emit_frame frameData (frame_listeners w) (stream w) of
        (cs, s) \<Rightarrow> w\<lparr>stream := s, frame_listeners := cs\<rparr>)"

section \<open>Sequences of operations\<close>

text \<open>
  Every public method of the class and every event that reaches it. \<open>exec\<close> gives the
  world after one of them; a method that throws or rejects leaves what it had assigned
  before.
\<close>

datatype operation =
    Register express_app js_value
  | SetPort js_value
  | SetPathname string
  | SetVerboseMode js_value
  | SetWidth js_value js_value
  | SetHeight js_value js_value
  | SetFPS js_value
  | SetEncoding string
  | SetQuality js_value
  | GetLastFrame
  | GetSnapshot
  | GetSupportedEncodingTypes
  | Start start_env
  | Pause reply
  | Resume reply
  | Stop reply
  | Request connection
  | Close nat
  | Frame frame

definition keep :: "livestream \<Rightarrow> error + livestream \<Rightarrow> livestream" where
  "keep s r = (case r of Inl e \<Rightarrow> s | Inr s1 \<Rightarrow> s1)"

fun exec :: "operation \<Rightarrow> world \<Rightarrow> world" where
  "exec (Register a p) w = w\<lparr>stream := register a p (stream w)\<rparr>"
| "exec (SetPort p) w = w\<lparr>stream := setPort p (stream w)\<rparr>"
| "exec (SetPathname src) w = w\<lparr>stream := setPathname src (stream w)\<rparr>"
| "exec (SetVerboseMode m) w = w\<lparr>stream := setVerboseMode m (stream w)\<rparr>"
| "exec (SetWidth x v) w = w\<lparr>stream := keep (stream w) (setWidth x v (stream w))\<rparr>"
| "exec (SetHeight x v) w = w\<lparr>stream := keep (stream w) (setHeight x v (stream w))\<rparr>"
| "exec (SetFPS x) w = w\<lparr>stream := keep (stream w) (setFPS x (stream w))\<rparr>"
| "exec (SetEncoding e) w = w\<lparr>stream := keep (stream w) (setEncoding (globals w) e (stream w))\<rparr>"
| "exec (SetQuality x) w = w\<lparr>stream := keep (stream w) (setQuality x (stream w))\<rparr>"
| "exec GetLastFrame w = w"
| "exec GetSnapshot w = w"
| "exec GetSupportedEncodingTypes w = w"
| "exec (Start env) w = w\<lparr>stream := snd (start env (stream w))\<rparr>"
| "exec (Pause r) w = w\<lparr>stream := snd (pause r (stream w))\<rparr>"
| "exec (Resume r) w = w\<lparr>stream := snd (resume r (stream w))\<rparr>"
| "exec (Stop r) w = w\<lparr>stream := snd (stop r (stream w))\<rparr>"
| "exec (Request c) w = (case route_handler c w of Inl e \<Rightarrow> w | Inr w1 \<Rightarrow> w1)"
| "exec (Close i) w = on_close i w"
| "exec (Frame f) w = on_frame f w"

fun run :: "operation list \<Rightarrow> world \<Rightarrow> world" where
  "run [] w = w"
| "run (x # xs) w = run xs (exec x w)"

section \<open>Consistent states and example inputs\<close>

text \<open>
  The relation between the flags and the camera reference that the methods keep:
  a stopped object is not started and holds no camera, a started object holds one.
\<close>

definition consistent :: "livestream \<Rightarrow> bool" where
  "consistent s =
     ((\<not> stopped (streamStatus s) \<or> (\<not> started (streamStatus s) \<and> camera s = None))
      \<and> (\<not> started (streamStatus s) \<or> camera s \<noteq> None))"

text \<open>
  A new object with the default config in a world with no listener, an environment in
  which every module loads and every callback fires, and a client whose response stream
  accepts writes.
\<close>

definition fresh_world :: world where
  "fresh_world = \<lparr>stream = LiveStream default_config, frame_listeners = [], globals = node_globals\<rparr>"

definition all_fire :: start_env where
  "all_fire =
     \<lparr>camera_module_loads = True, express_loads = True, listen_reply = Fires,
      start_reply = Fires, first_client = Some ''raspberrypi''\<rparr>"

definition client :: "nat \<Rightarrow> connection" where
  "client i = \<lparr>conn_id = i, hostname = ''raspberrypi'', writable = True, head = None, written = []\<rparr>"

section \<open>Reading results\<close>

fun throws_ValidationError :: "error + 'a \<Rightarrow> bool" where
  "throws_ValidationError (Inl (ValidationError m)) = True"
| "throws_ValidationError r = False"

fun throws_LifecycleError :: "error + 'a \<Rightarrow> bool" where
  "throws_LifecycleError (Inl (LifecycleError m)) = True"
| "throws_LifecycleError r = False"

fun rejects_LifecycleError :: "'a promise \<Rightarrow> bool" where
  "rejects_LifecycleError (Rejected (LifecycleError m)) = True"
| "rejects_LifecycleError r = False"

fun resolved :: "'a promise \<Rightarrow> bool" where
  "resolved (Resolved x) = True"
| "resolved r = False"

section \<open>\<open>parseInt\<close> reads back the decimal digits of an integer\<close>

declare nat_digits.simps [simp del]

lemma of_char_digit_char: "d < 10 \<Longrightarrow> (of_char (digit_char d) :: nat) = 48 + d"
  by (simp add: digit_char_def)

lemma digit_value_digit_char: "d < 10 \<Longrightarrow> digit_value (digit_char d) = Some d"
  by (simp add: digit_value_def of_char_digit_char)

lemma nat_digits_chars: "c \<in> set (nat_digits n) \<Longrightarrow> \<exists>d<10. c = digit_char d"
proof (induction n rule: nat_digits.induct)
  case (1 n)
  show ?case
  proof (cases "n < 10")
    case True
    with "1.prems" show ?thesis by (auto simp: nat_digits.simps [of n])
  next
    case False
    with "1.prems" have "c \<in> set (nat_digits (n div 10)) \<or> c = digit_char (n mod 10)"
      by (auto simp: nat_digits.simps [of n])
    then show ?thesis
    proof
      assume "c \<in> set (nat_digits (n div 10))"
      with False "1.IH" show ?thesis by simp
    next
      assume "c = digit_char (n mod 10)"
      moreover have "n mod 10 < 10" by simp
      ultimately show ?thesis by blast
    qed
  qed
qed

lemma nat_digits_nonempty: "nat_digits n \<noteq> []"
  by (subst nat_digits.simps) simp

lemma radix_value_snoc:
  "radix_value r (z @ [c]) = radix_value r z * r + (case digit_value c of None \<Rightarrow> 0 | Some d \<Rightarrow> d)"
  by (simp add: radix_value_def)

lemma radix_value_nat_digits: "radix_value 10 (nat_digits n) = n"
proof (induction n rule: nat_digits.induct)
  case (1 n)
  show ?case
  proof (cases "n < 10")
    case True
    then show ?thesis
      by (simp add: nat_digits.simps [of n] radix_value_def digit_value_digit_char)
  next
    case False
    with "1.IH" have "radix_value 10 (nat_digits (n div 10)) = n div 10" by simp
    with False show ?thesis
      by (simp add: nat_digits.simps [of n] radix_value_snoc digit_value_digit_char)
  qed
qed

lemma digit_char_props:
  assumes "d < 10"
  shows "\<not> is_white_space (digit_char d)" "digit_char d \<noteq> CHR ''-''" "digit_char d \<noteq> CHR ''+''"
    "digit_char d \<noteq> CHR ''x''" "digit_char d \<noteq> CHR ''X''" "is_radix_digit 10 (digit_char d)"
proof -
  have k: "(of_char (digit_char d) :: nat) = 48 + d" using assms by (rule of_char_digit_char)
  show "\<not> is_white_space (digit_char d)" using assms by (simp add: is_white_space_def k)
  show "digit_char d \<noteq> CHR ''-''" using k by auto
  show "digit_char d \<noteq> CHR ''+''" using k by auto
  show "digit_char d \<noteq> CHR ''x''" using k assms by auto
  show "digit_char d \<noteq> CHR ''X''" using k assms by auto
  show "is_radix_digit 10 (digit_char d)"
    using assms by (simp add: is_radix_digit_def digit_value_digit_char)
qed

lemma parse_digits_nat_digits: "parse_digits 10 (nat_digits n) = Some n"
proof -
  have "\<forall>c \<in> set (nat_digits n). is_radix_digit 10 c"
    using nat_digits_chars digit_char_props(6) by blast
  then have tw: "takeWhile (is_radix_digit 10) (nat_digits n) = nat_digits n"
    by (simp add: takeWhile_eq_all_conv)
  show ?thesis
    by (simp add: parse_digits_def Let_def tw nat_digits_nonempty radix_value_nat_digits)
qed

lemma strip_prefix_nat_digits: "strip_prefix (nat_digits n) = (10, nat_digits n)"
proof (cases "nat_digits n")
  case Nil
  then show ?thesis by simp
next
  case (Cons a t)
  show ?thesis
  proof (cases t)
    case Nil
    with Cons show ?thesis by simp
  next
    case (Cons b s)
    with \<open>nat_digits n = a # t\<close> have "b \<in> set (nat_digits n)" by simp
    then obtain d where "d < 10" "b = digit_char d" using nat_digits_chars by blast
    then have "b \<noteq> CHR ''x''" "b \<noteq> CHR ''X''" using digit_char_props by auto
    with Cons \<open>nat_digits n = a # t\<close> show ?thesis by simp
  qed
qed

lemma hd_nat_digits: "\<exists>d<10. \<exists>s. nat_digits n = digit_char d # s"
proof -
  obtain c s where cs: "nat_digits n = c # s"
    using nat_digits_nonempty by (cases "nat_digits n") auto
  then have "c \<in> set (nat_digits n)" by simp
  then show ?thesis using nat_digits_chars cs by blast
qed

lemma parseInt_string_nat_digits: "parseInt_string (nat_digits n) = Num (int n)"
proof -
  obtain d s where d: "d < 10" and ds: "nat_digits n = digit_char d # s"
    using hd_nat_digits by blast
  have a: "dropWhile is_white_space (nat_digits n) = nat_digits n"
    using d ds digit_char_props(1) by simp
  have b: "strip_sign (nat_digits n) = (1, nat_digits n)"
    using d ds digit_char_props(2,3) by simp
  show ?thesis
    by (simp add: parseInt_string_def a b strip_prefix_nat_digits parse_digits_nat_digits)
qed

lemma parseInt_string_minus: "parseInt_string (CHR ''-'' # nat_digits n) = Num (- int n)"
proof -
  have a: "\<not> is_white_space CHR ''-''"
    by (simp add: is_white_space_def)
  show ?thesis
    by (simp add: parseInt_string_def a strip_prefix_nat_digits parse_digits_nat_digits)
qed

lemma parseInt_Num: "\<bar>n\<bar> < 10 ^ 21 \<Longrightarrow> parseInt (JNum (Num n)) = Num n"
proof (cases "n < 0")
  case True
  assume "\<bar>n\<bar> < 10 ^ 21"
  with True have "nat (- n) < 10 ^ 21" by (simp add: nat_less_iff)
  with True show ?thesis
    by (simp add: parseInt_def int_toString_def nat_toString_def parseInt_string_minus)
next
  case False
  assume "\<bar>n\<bar> < 10 ^ 21"
  with False have "nat n < 10 ^ 21" by (simp add: nat_less_iff)
  with False show ?thesis
    by (simp add: parseInt_def int_toString_def nat_toString_def parseInt_string_nat_digits)
qed

section \<open>The bounded setters\<close>

lemma setWidth_Num:
  assumes "\<bar>n\<bar> < 10 ^ 21"
  shows "32 \<le> n \<and> n \<le> (if strict_eq_num v 1 then 2592 else 3280) \<Longrightarrow> v \<noteq> JUndefined \<Longrightarrow>
           setWidth (JNum (Num n)) v s = Inr (s\<lparr>config := (config s)\<lparr>width := Num n\<rparr>\<rparr>)"
    and "n < 32 \<or> (if strict_eq_num v 1 then 2592 else 3280) < n \<Longrightarrow> v \<noteq> JUndefined \<Longrightarrow>
           throws_ValidationError (setWidth (JNum (Num n)) v s)"
  using parseInt_Num [OF assms] by (auto simp: setWidth_def default_arg_def Let_def)

lemma setHeight_Num:
  assumes "\<bar>n\<bar> < 10 ^ 21"
  shows "16 \<le> n \<and> n \<le> (if strict_eq_num v 1 then 1944 else 2464) \<Longrightarrow> v \<noteq> JUndefined \<Longrightarrow>
           setHeight (JNum (Num n)) v s = Inr (s\<lparr>config := (config s)\<lparr>height := Num n\<rparr>\<rparr>)"
    and "n < 16 \<or> (if strict_eq_num v 1 then 1944 else 2464) < n \<Longrightarrow> v \<noteq> JUndefined \<Longrightarrow>
           throws_ValidationError (setHeight (JNum (Num n)) v s)"
  using parseInt_Num [OF assms] by (auto simp: setHeight_def default_arg_def Let_def)

lemma setFPS_Num:
  assumes "\<bar>n\<bar> < 10 ^ 21"
  shows "1 \<le> n \<and> n \<le> 90 \<Longrightarrow>
           setFPS (JNum (Num n)) s = Inr (s\<lparr>config := (config s)\<lparr>fps := Num n\<rparr>\<rparr>)"
    and "n < 1 \<or> 90 < n \<Longrightarrow> throws_ValidationError (setFPS (JNum (Num n)) s)"
  using parseInt_Num [OF assms] by (auto simp: setFPS_def Let_def)

lemma setQuality_Num:
  assumes "\<bar>n\<bar> < 10 ^ 21"
  shows "1 \<le> n \<and> n \<le> 100 \<Longrightarrow>
           setQuality (JNum (Num n)) s = Inr (s\<lparr>config := (config s)\<lparr>quality := Num n\<rparr>\<rparr>)"
    and "n < 1 \<or> 100 < n \<Longrightarrow> throws_ValidationError (setQuality (JNum (Num n)) s)"
  using parseInt_Num [OF assms] by (auto simp: setQuality_def Let_def)

lemma keep_throws: "throws_ValidationError r \<Longrightarrow> keep s r = s"
  by (cases r) (auto simp: keep_def)

subsection \<open>Integers from \<open>10 ^ 21\<close> on\<close>

text \<open>
  In exponent notation one digit stands before the point or the \<open>e\<close>, and \<open>parseInt\<close>
  stops there: the result is that one digit, with the sign. So the lower bounds 32 and
  16 of \<open>setWidth\<close> and \<open>setHeight\<close> reject every such argument, and the lower bound 1
  of \<open>setFPS\<close> and \<open>setQuality\<close> rejects the negative ones. This rests on the shape of
  the notation alone, not on which digits are written.
\<close>

lemma parseInt_string_zero: "parseInt_string ''0'' = Num 0" "parseInt_string ''-0'' = Num 0"
  by (simp_all add: parseInt_string_def is_white_space_def parse_digits_def is_radix_digit_def
      digit_value_def radix_value_def Let_def)

lemma parseInt_string_leading_digit:
  assumes "d < 10" and "c = CHR ''.'' \<or> c = CHR ''e''"
  shows "parseInt_string (digit_char d # c # rest) = Num (int d)"
    and "parseInt_string (CHR ''-'' # digit_char d # c # rest) = Num (- int d)"
proof -
  have c: "\<not> is_radix_digit 10 c" "c \<noteq> CHR ''x''" "c \<noteq> CHR ''X''"
    using assms(2) by (auto simp: is_radix_digit_def digit_value_def)
  have dg: "is_radix_digit 10 (digit_char d)" using assms(1) by (rule digit_char_props(6))
  have pd: "parse_digits 10 (digit_char d # c # rest) = Some d"
    using assms(1) c(1) dg
    by (simp add: parse_digits_def Let_def radix_value_def digit_value_digit_char)
  have sp: "strip_prefix (digit_char d # c # rest) = (10, digit_char d # c # rest)"
    using c by simp
  have m: "\<not> is_white_space CHR ''-''" by (simp add: is_white_space_def)
  have ws: "\<not> is_white_space (digit_char d)" using assms(1) by (rule digit_char_props(1))
  have sg: "digit_char d \<noteq> CHR ''-''" "digit_char d \<noteq> CHR ''+''"
    using assms(1) digit_char_props(2,3) by auto
  have ss: "strip_sign (digit_char d # c # rest) = (1, digit_char d # c # rest)"
    using sg by simp
  have dw: "dropWhile is_white_space (digit_char d # c # rest) = digit_char d # c # rest"
    using ws by simp
  show "parseInt_string (digit_char d # c # rest) = Num (int d)"
    unfolding parseInt_string_def dw ss by (simp add: sp pd c)
  have dw2: "dropWhile is_white_space (CHR ''-'' # digit_char d # c # rest)
      = CHR ''-'' # digit_char d # c # rest"
    using m by simp
  have ss2: "strip_sign (CHR ''-'' # digit_char d # c # rest) = (- 1, digit_char d # c # rest)"
    by simp
  show "parseInt_string (CHR ''-'' # digit_char d # c # rest) = Num (- int d)"
    unfolding parseInt_string_def dw2 ss2 by (simp add: sp pd c)
qed

lemma exponent_form_shape:
  "exponent_form m = ''0''
   \<or> (\<exists>d<10. \<exists>c rest. (c = CHR ''.'' \<or> c = CHR ''e'') \<and> exponent_form m = digit_char d # c # rest)"
proof (cases "rev (dropWhile (\<lambda>c. c = CHR ''0'') (rev (nat_digits m)))")
  case Nil
  show ?thesis unfolding exponent_form_def Let_def Nil by simp
next
  case (Cons x more)
  then have "x \<in> set (dropWhile (\<lambda>c. c = CHR ''0'') (rev (nat_digits m)))"
    by (metis list.set_intros(1) set_rev)
  then have "x \<in> set (rev (nat_digits m))" by (rule set_dropWhileD)
  then have "x \<in> set (nat_digits m)" by simp
  then obtain d where d: "d < 10" "x = digit_char d" using nat_digits_chars by blast
  show ?thesis
  proof (cases "more = []")
    case True
    have "exponent_form m
        = digit_char d # CHR ''e'' # (CHR ''+'' # nat_digits (length (nat_digits m) - 1))"
      unfolding exponent_form_def Let_def Cons using d True by simp
    with d(1) show ?thesis by blast
  next
    case False
    have "exponent_form m
        = digit_char d # CHR ''.'' # (more @ ''e+'' @ nat_digits (length (nat_digits m) - 1))"
      unfolding exponent_form_def Let_def Cons using d False by simp
    with d(1) show ?thesis by blast
  qed
qed

lemma parseInt_exponent_form:
  "\<exists>d<10. parseInt_string (exponent_form m) = Num (int d)
          \<and> parseInt_string (CHR ''-'' # exponent_form m) = Num (- int d)"
proof -
  consider (zero) "exponent_form m = ''0''"
    | (digit) d c rest where "d < 10" "c = CHR ''.'' \<or> c = CHR ''e''"
        "exponent_form m = digit_char d # c # rest"
    using exponent_form_shape [of m] by blast
  then show ?thesis
  proof cases
    case zero
    have "(0::nat) < 10" by simp
    moreover have "parseInt_string (exponent_form m) = Num (int 0)
          \<and> parseInt_string (CHR ''-'' # exponent_form m) = Num (- int 0)"
      using zero by (simp add: parseInt_string_zero)
    ultimately show ?thesis by blast
  next
    case digit
    then have "parseInt_string (exponent_form m) = Num (int d)
          \<and> parseInt_string (CHR ''-'' # exponent_form m) = Num (- int d)"
      using parseInt_string_leading_digit [of d c rest] by simp
    with digit(1) show ?thesis by blast
  qed
qed

lemma parseInt_Num_big:
  assumes "10 ^ 21 \<le> \<bar>n\<bar>"
  shows "\<exists>k. parseInt (JNum (Num n)) = Num k \<and> k \<le> 9 \<and> (n < 0 \<longrightarrow> k \<le> 0)"
proof (cases "n < 0")
  case True
  with assms have "\<not> nat (- n) < 10 ^ 21" by (simp add: nat_less_iff)
  with True have t: "toString (JNum (Num n)) = CHR ''-'' # exponent_form (nat (- n))"
    by (simp add: int_toString_def nat_toString_def)
  obtain d where "d < 10" "parseInt_string (CHR ''-'' # exponent_form (nat (- n))) = Num (- int d)"
    using parseInt_exponent_form [of "nat (- n)"] by blast
  with t True show ?thesis by (simp add: parseInt_def)
next
  case False
  with assms have "\<not> nat n < 10 ^ 21" by (simp add: nat_less_iff)
  with False have t: "toString (JNum (Num n)) = exponent_form (nat n)"
    by (simp add: int_toString_def nat_toString_def)
  obtain d where "d < 10" "parseInt_string (exponent_form (nat n)) = Num (int d)"
    using parseInt_exponent_form [of "nat n"] by blast
  with t False show ?thesis by (simp add: parseInt_def)
qed

lemma setWidth_big:
  "10 ^ 21 \<le> \<bar>n\<bar> \<Longrightarrow> throws_ValidationError (setWidth (JNum (Num n)) v s)"
  using parseInt_Num_big [of n] by (auto simp: setWidth_def Let_def)

lemma setHeight_big:
  "10 ^ 21 \<le> \<bar>n\<bar> \<Longrightarrow> throws_ValidationError (setHeight (JNum (Num n)) v s)"
  using parseInt_Num_big [of n] by (auto simp: setHeight_def Let_def)

lemma setFPS_negative_big:
  "n \<le> - (10 ^ 21) \<Longrightarrow> throws_ValidationError (setFPS (JNum (Num n)) s)"
  using parseInt_Num_big [of n] by (auto simp: setFPS_def Let_def)

lemma setQuality_negative_big:
  "n \<le> - (10 ^ 21) \<Longrightarrow> throws_ValidationError (setQuality (JNum (Num n)) s)"
  using parseInt_Num_big [of n] by (auto simp: setQuality_def Let_def)

text \<open>
  C7 (amended). For every integer argument \<open>n\<close>: \<open>setWidth\<close> (32 to 2592 for camera
  version 1, 32 to 3280 for version 2) and \<open>setHeight\<close> (16 to 1944 for version 1, 16 to
  2464 for version 2) succeed when \<open>n\<close> is in the range, and then the config holds \<open>n\<close>
  in that field and is otherwise as before; when \<open>n\<close> is outside the range they throw a
  validation error and the object is as before. The same holds of \<open>setFPS\<close> (1 to 90)
  and \<open>setQuality\<close> (1 to 100) for every integer \<open>n\<close> below \<open>10 ^ 21\<close>.
\<close>

theorem bounded_setters_range:
  "(if 32 \<le> n \<and> n \<le> 2592
      then setWidth (JNum (Num n)) (JNum (Num 1)) s = Inr (s\<lparr>config := (config s)\<lparr>width := Num n\<rparr>\<rparr>)
      else throws_ValidationError (setWidth (JNum (Num n)) (JNum (Num 1)) s)
           \<and> keep s (setWidth (JNum (Num n)) (JNum (Num 1)) s) = s)
   \<and> (if 32 \<le> n \<and> n \<le> 3280
      then setWidth (JNum (Num n)) (JNum (Num 2)) s = Inr (s\<lparr>config := (config s)\<lparr>width := Num n\<rparr>\<rparr>)
      else throws_ValidationError (setWidth (JNum (Num n)) (JNum (Num 2)) s)
           \<and> keep s (setWidth (JNum (Num n)) (JNum (Num 2)) s) = s)
   \<and> (if 16 \<le> n \<and> n \<le> 1944
      then setHeight (JNum (Num n)) (JNum (Num 1)) s = Inr (s\<lparr>config := (config s)\<lparr>height := Num n\<rparr>\<rparr>)
      else throws_ValidationError (setHeight (JNum (Num n)) (JNum (Num 1)) s)
           \<and> keep s (setHeight (JNum (Num n)) (JNum (Num 1)) s) = s)
   \<and> (if 16 \<le> n \<and> n \<le> 2464
      then setHeight (JNum (Num n)) (JNum (Num 2)) s = Inr (s\<lparr>config := (config s)\<lparr>height := Num n\<rparr>\<rparr>)
      else throws_ValidationError (setHeight (JNum (Num n)) (JNum (Num 2)) s)
           \<and> keep s (setHeight (JNum (Num n)) (JNum (Num 2)) s) = s)
   \<and> (n < 10 ^ 21 \<longrightarrow>
       (if 1 \<le> n \<and> n \<le> 90
        then setFPS (JNum (Num n)) s = Inr (s\<lparr>config := (config s)\<lparr>fps := Num n\<rparr>\<rparr>)
        else throws_ValidationError (setFPS (JNum (Num n)) s)
             \<and> keep s (setFPS (JNum (Num n)) s) = s))
   \<and> (n < 10 ^ 21 \<longrightarrow>
       (if 1 \<le> n \<and> n \<le> 100
        then setQuality (JNum (Num n)) s = Inr (s\<lparr>config := (config s)\<lparr>quality := Num n\<rparr>\<rparr>)
        else throws_ValidationError (setQuality (JNum (Num n)) s)
             \<and> keep s (setQuality (JNum (Num n)) s) = s))"
proof (cases "\<bar>n\<bar> < 10 ^ 21")
  case True
  have w1: "if 32 \<le> n \<and> n \<le> 2592
      then setWidth (JNum (Num n)) (JNum (Num 1)) s = Inr (s\<lparr>config := (config s)\<lparr>width := Num n\<rparr>\<rparr>)
      else throws_ValidationError (setWidth (JNum (Num n)) (JNum (Num 1)) s)
           \<and> keep s (setWidth (JNum (Num n)) (JNum (Num 1)) s) = s"
    using setWidth_Num [OF True, of "JNum (Num 1)" s] by (auto intro: keep_throws)
  have w2: "if 32 \<le> n \<and> n \<le> 3280
      then setWidth (JNum (Num n)) (JNum (Num 2)) s = Inr (s\<lparr>config := (config s)\<lparr>width := Num n\<rparr>\<rparr>)
      else throws_ValidationError (setWidth (JNum (Num n)) (JNum (Num 2)) s)
           \<and> keep s (setWidth (JNum (Num n)) (JNum (Num 2)) s) = s"
    using setWidth_Num [OF True, of "JNum (Num 2)" s] by (auto intro: keep_throws)
  have h1: "if 16 \<le> n \<and> n \<le> 1944
      then setHeight (JNum (Num n)) (JNum (Num 1)) s = Inr (s\<lparr>config := (config s)\<lparr>height := Num n\<rparr>\<rparr>)
      else throws_ValidationError (setHeight (JNum (Num n)) (JNum (Num 1)) s)
           \<and> keep s (setHeight (JNum (Num n)) (JNum (Num 1)) s) = s"
    using setHeight_Num [OF True, of "JNum (Num 1)" s] by (auto intro: keep_throws)
  have h2: "if 16 \<le> n \<and> n \<le> 2464
      then setHeight (JNum (Num n)) (JNum (Num 2)) s = Inr (s\<lparr>config := (config s)\<lparr>height := Num n\<rparr>\<rparr>)
      else throws_ValidationError (setHeight (JNum (Num n)) (JNum (Num 2)) s)
           \<and> keep s (setHeight (JNum (Num n)) (JNum (Num 2)) s) = s"
    using setHeight_Num [OF True, of "JNum (Num 2)" s] by (auto intro: keep_throws)
  have f: "if 1 \<le> n \<and> n \<le> 90
      then setFPS (JNum (Num n)) s = Inr (s\<lparr>config := (config s)\<lparr>fps := Num n\<rparr>\<rparr>)
      else throws_ValidationError (setFPS (JNum (Num n)) s)
           \<and> keep s (setFPS (JNum (Num n)) s) = s"
    using setFPS_Num [OF True, of s] by (auto intro: keep_throws)
  have q: "if 1 \<le> n \<and> n \<le> 100
      then setQuality (JNum (Num n)) s = Inr (s\<lparr>config := (config s)\<lparr>quality := Num n\<rparr>\<rparr>)
      else throws_ValidationError (setQuality (JNum (Num n)) s)
           \<and> keep s (setQuality (JNum (Num n)) s) = s"
    using setQuality_Num [OF True, of s] by (auto intro: keep_throws)
  from w1 w2 h1 h2 f q show ?thesis by blast
next
  case False
  then have big: "10 ^ 21 \<le> \<bar>n\<bar>" by simp
  have w: "throws_ValidationError (setWidth (JNum (Num n)) (JNum (Num 1)) s)"
    "throws_ValidationError (setWidth (JNum (Num n)) (JNum (Num 2)) s)"
    using big by (rule setWidth_big)+
  have h: "throws_ValidationError (setHeight (JNum (Num n)) (JNum (Num 1)) s)"
    "throws_ValidationError (setHeight (JNum (Num n)) (JNum (Num 2)) s)"
    using big by (rule setHeight_big)+
  show ?thesis
  proof (cases "n < 0")
    case True
    with big have neg: "n \<le> - (10 ^ 21)" by simp
    then have out: "\<not> 32 \<le> n" "\<not> 16 \<le> n" "\<not> 1 \<le> n" by simp_all
    have f: "throws_ValidationError (setFPS (JNum (Num n)) s)"
      using neg by (rule setFPS_negative_big)
    have q: "throws_ValidationError (setQuality (JNum (Num n)) s)"
      using neg by (rule setQuality_negative_big)
    show ?thesis by (simp add: out w h f q keep_throws)
  next
    case nonneg: False
    with big have pos: "10 ^ 21 \<le> n" by simp
    then have out: "\<not> n \<le> 2592" "\<not> n \<le> 3280" "\<not> n \<le> 1944" "\<not> n \<le> 2464"
      "\<not> n < 1000000000000000000000"
      by simp_all
    show ?thesis by (simp add: out w h keep_throws)
  qed
qed

theorem bounded_setters_range_witness:
  "(100 :: int) < 10 ^ 21
   \<and> setWidth (JNum (Num 100)) (JNum (Num 1)) (LiveStream default_config)
       = Inr ((LiveStream default_config)\<lparr>config := (config (LiveStream default_config))\<lparr>width := Num 100\<rparr>\<rparr>)
   \<and> throws_ValidationError (setWidth (JNum (Num 3000)) (JNum (Num 1)) (LiveStream default_config))
   \<and> setWidth (JNum (Num 3000)) (JNum (Num 2)) (LiveStream default_config)
       = Inr ((LiveStream default_config)\<lparr>config := (config (LiveStream default_config))\<lparr>width := Num 3000\<rparr>\<rparr>)
   \<and> throws_ValidationError (setFPS (JNum (Num 100)) (LiveStream default_config))
   \<and> setQuality (JNum (Num 100)) (LiveStream default_config)
       = Inr ((LiveStream default_config)\<lparr>config := (config (LiveStream default_config))\<lparr>quality := Num 100\<rparr>\<rparr>)
   \<and> throws_ValidationError (setWidth (JNum (Num (10 ^ 21))) (JNum (Num 2)) (LiveStream default_config))
   \<and> throws_ValidationError (setHeight (JNum (Num (10 ^ 21))) (JNum (Num 2)) (LiveStream default_config))"
  using bounded_setters_range [of 100 "LiveStream default_config"]
    bounded_setters_range [of 3000 "LiveStream default_config"]
    bounded_setters_range [of "10 ^ 21" "LiveStream default_config"]
  by simp

lemma digit_char_eval:
  "digit_char 0 = CHR ''0''" "digit_char 1 = CHR ''1''" "digit_char 2 = CHR ''2''"
  "digit_char 3 = CHR ''3''" "digit_char 4 = CHR ''4''" "digit_char 5 = CHR ''5''"
  "digit_char 6 = CHR ''6''" "digit_char 7 = CHR ''7''" "digit_char 8 = CHR ''8''"
  "digit_char 9 = CHR ''9''" "digit_char (Suc 0) = CHR ''1''"
  by code_simp+

lemma nat_toString_ten_to_21: "nat_toString 1000000000000000000000 = ''1e+21''"
proof -
  have "nat_digits 1000000000000000000000 = ''1000000000000000000000''"
    by (simp add: nat_digits.simps digit_char_eval)
  then show ?thesis
    by (simp add: nat_toString_def exponent_form_def Let_def nat_digits.simps digit_char_eval)
qed

lemma parseInt_ten_to_21: "parseInt (JNum (Num 1000000000000000000000)) = Num 1"
  using nat_toString_ten_to_21
  by (simp add: parseInt_def int_toString_def parseInt_string_def is_white_space_def
      parse_digits_def is_radix_digit_def digit_value_def radix_value_def Let_def)

text \<open>
  The claim as stated, for every integer, fails at \<open>10 ^ 21\<close>: the Number is written
  \<open>1e+21\<close>, \<open>parseInt\<close> reads \<open>1\<close>, and \<open>setFPS\<close> stores \<open>1\<close>.
\<close>

theorem bounded_setters_counterexample:
  "\<not> ((1 :: int) \<le> 10 ^ 21 \<and> (10 :: int) ^ 21 \<le> 90)
   \<and> \<not> throws_ValidationError (setFPS (JNum (Num (10 ^ 21))) (LiveStream default_config))
   \<and> setFPS (JNum (Num (10 ^ 21))) (LiveStream default_config)
       = Inr ((LiveStream default_config)\<lparr>config := default_config\<lparr>fps := Num 1\<rparr>\<rparr>)"
  by (simp add: setFPS_def parseInt_ten_to_21 LiveStream_def)

section \<open>Arguments that parse to \<open>NaN\<close>\<close>

lemma parseInt_abc: "parseInt (JStr ''abc'') = NaN"
  by (simp add: parseInt_def parseInt_string_def is_white_space_def parse_digits_def
      is_radix_digit_def digit_value_def Let_def)

text \<open>
  C10. When \<open>parseInt\<close> of the argument is \<open>NaN\<close>, neither comparison of the range
  check holds, so \<open>setWidth\<close>, \<open>setHeight\<close>, \<open>setFPS\<close> and \<open>setQuality\<close> do not throw:
  each stores \<open>NaN\<close> in its field of the config.
\<close>

theorem NaN_passes_range_check:
  assumes "parseInt x = NaN"
  shows "setWidth x v s = Inr (s\<lparr>config := (config s)\<lparr>width := NaN\<rparr>\<rparr>)
       \<and> setHeight x v s = Inr (s\<lparr>config := (config s)\<lparr>height := NaN\<rparr>\<rparr>)
       \<and> setFPS x s = Inr (s\<lparr>config := (config s)\<lparr>fps := NaN\<rparr>\<rparr>)
       \<and> setQuality x s = Inr (s\<lparr>config := (config s)\<lparr>quality := NaN\<rparr>\<rparr>)
       \<and> \<not> throws_ValidationError (setWidth x v s)
       \<and> \<not> throws_ValidationError (setHeight x v s)
       \<and> \<not> throws_ValidationError (setFPS x s)
       \<and> \<not> throws_ValidationError (setQuality x s)"
  using assms by (simp add: setWidth_def setHeight_def setFPS_def setQuality_def Let_def)

theorem NaN_passes_range_check_witness:
  "parseInt (JStr ''abc'') = NaN
   \<and> fps (config (keep (LiveStream default_config) (setFPS (JStr ''abc'') (LiveStream default_config)))) = NaN
   \<and> width (config (keep (LiveStream default_config)
         (setWidth (JStr ''abc'') JUndefined (LiveStream default_config)))) = NaN
   \<and> \<not> throws_ValidationError (setQuality (JStr ''abc'') (LiveStream default_config))"
  using parseInt_abc
    NaN_passes_range_check [OF parseInt_abc, of JUndefined "LiveStream default_config"]
  by (simp add: keep_def)

section \<open>\<open>register\<close>\<close>

text \<open>
  C8 (amended). \<open>register\<close> stores the given server handle as it is given, so it calls
  neither \<open>listen\<close> nor \<open>get\<close> on it, and changes no field but \<open>server\<close>. A nonzero
  integer port of magnitude below \<open>10 ^ 21\<close> replaces the stored port. The port \<open>0\<close>
  is falsy, as is a port that is not given: the stored port stays.
\<close>

theorem register_handle_and_port:
  "app (server (register a p s)) = Some a
   \<and> (register a p s)\<lparr>server := server s\<rparr> = s
   \<and> (n \<noteq> 0 \<and> \<bar>n\<bar> < 10 ^ 21 \<longrightarrow> port (server (register a (JNum (Num n)) s)) = Num n)
   \<and> port (server (register a (JNum (Num 0)) s)) = port (server s)
   \<and> port (server (register a JUndefined s)) = port (server s)"
proof -
  have "n \<noteq> 0 \<and> \<bar>n\<bar> < 10 ^ 21 \<longrightarrow> port (server (register a (JNum (Num n)) s)) = Num n"
    by (simp add: register_def default_arg_def parseInt_Num)
  then show ?thesis
    by (simp add: register_def default_arg_def)
qed

theorem register_handle_and_port_witness:
  "(8080 :: int) \<noteq> 0 \<and> \<bar>8080 :: int\<bar> < 10 ^ 21
   \<and> port (server (register \<lparr>listening = None, routes = []\<rparr> (JNum (Num 8080))
         (LiveStream default_config))) = Num 8080
   \<and> app (server (register \<lparr>listening = None, routes = []\<rparr> (JNum (Num 8080))
         (LiveStream default_config))) = Some \<lparr>listening = None, routes = []\<rparr>"
  using register_handle_and_port
    [of "\<lparr>listening = None, routes = []\<rparr>" "JNum (Num 8080)" "LiveStream default_config" 8080]
  by simp

text \<open>The claim as stated, for every integer port, fails at port \<open>0\<close>: the default \<open>8000\<close> stays.\<close>

theorem register_port_counterexample:
  "port (server (register \<lparr>listening = None, routes = []\<rparr> (JNum (Num 0))
     (LiveStream default_config))) = Num 8000
   \<and> port (server (register \<lparr>listening = None, routes = []\<rparr> (JNum (Num 0))
     (LiveStream default_config))) \<noteq> Num 0"
  by (simp add: register_def default_arg_def LiveStream_def)

section \<open>\<open>setEncoding\<close>\<close>

lemma setEncoding_unbound:
  "g ''supportedEncodingTypes'' = None \<Longrightarrow>
     setEncoding g enc s = Inl (ReferenceError ''supportedEncodingTypes is not defined'')"
  by (simp add: setEncoding_def resolve_identifier_def Let_def)

text \<open>
  Had the identifier named the list of the class, as \<open>LiveStream.supportedEncodingTypes\<close>
  does in \<open>getSupportedEncodingTypes\<close>, the method would accept exactly the six types.
\<close>

lemma setEncoding_bound:
  assumes "g ''supportedEncodingTypes'' = Some supportedEncodingTypes"
  shows "toUpperCase (trim enc) \<in> set supportedEncodingTypes \<Longrightarrow>
           setEncoding g enc s =
             Inr (s\<lparr>config := (config s)\<lparr>encoding := toUpperCase (trim enc)\<rparr>,
                    mimeType := Some (''image/'' @ toLowerCase (toUpperCase (trim enc)))\<rparr>)"
    and "toUpperCase (trim enc) \<notin> set supportedEncodingTypes \<Longrightarrow>
           throws_ValidationError (setEncoding g enc s)"
  using assms
  by (simp_all add: setEncoding_def resolve_identifier_def Let_def)

text \<open>
  C1. \<open>setEncoding('png')\<close> on a new object does not store \<open>PNG\<close>: the unqualified
  identifier is unbound and the call ends in a \<open>ReferenceError\<close>, whatever the argument.
\<close>

theorem setEncoding_png_fails:
  "setEncoding node_globals ''png'' (LiveStream default_config)
     = Inl (ReferenceError ''supportedEncodingTypes is not defined'')
   \<and> setEncoding node_globals ''WEBP'' (LiveStream default_config)
     = Inl (ReferenceError ''supportedEncodingTypes is not defined'')
   \<and> \<not> throws_ValidationError (setEncoding node_globals ''WEBP'' (LiveStream default_config))"
  by (simp add: setEncoding_unbound node_globals_def)

section \<open>What each operation does to the flags and the camera reference\<close>

lemma register_lifecycle:
  "streamStatus (register a p s) = streamStatus s" "camera (register a p s) = camera s"
  "lastFrame (register a p s) = lastFrame s"
  by (simp_all add: register_def Let_def)

lemma setPort_lifecycle:
  "streamStatus (setPort p s) = streamStatus s" "camera (setPort p s) = camera s"
  "lastFrame (setPort p s) = lastFrame s"
  by (simp_all add: setPort_def)

lemma setPathname_lifecycle:
  "streamStatus (setPathname src s) = streamStatus s" "camera (setPathname src s) = camera s"
  "lastFrame (setPathname src s) = lastFrame s"
  by (simp_all add: setPathname_def)

lemma setVerboseMode_lifecycle:
  "streamStatus (setVerboseMode m s) = streamStatus s" "camera (setVerboseMode m s) = camera s"
  "lastFrame (setVerboseMode m s) = lastFrame s"
  by (simp_all add: setVerboseMode_def)

lemma setWidth_lifecycle:
  "streamStatus (keep s (setWidth x v s)) = streamStatus s"
  "camera (keep s (setWidth x v s)) = camera s"
  "lastFrame (keep s (setWidth x v s)) = lastFrame s"
  by (simp_all add: setWidth_def keep_def Let_def)

lemma setHeight_lifecycle:
  "streamStatus (keep s (setHeight x v s)) = streamStatus s"
  "camera (keep s (setHeight x v s)) = camera s"
  "lastFrame (keep s (setHeight x v s)) = lastFrame s"
  by (simp_all add: setHeight_def keep_def Let_def)

lemma setFPS_lifecycle:
  "streamStatus (keep s (setFPS x s)) = streamStatus s"
  "camera (keep s (setFPS x s)) = camera s"
  "lastFrame (keep s (setFPS x s)) = lastFrame s"
  by (simp_all add: setFPS_def keep_def Let_def)

lemma setQuality_lifecycle:
  "streamStatus (keep s (setQuality x s)) = streamStatus s"
  "camera (keep s (setQuality x s)) = camera s"
  "lastFrame (keep s (setQuality x s)) = lastFrame s"
  by (simp_all add: setQuality_def keep_def Let_def)

lemma setEncoding_lifecycle:
  "streamStatus (keep s (setEncoding g e s)) = streamStatus s"
  "camera (keep s (setEncoding g e s)) = camera s"
  "lastFrame (keep s (setEncoding g e s)) = lastFrame s"
  by (simp_all add: setEncoding_def keep_def Let_def split: sum.splits)

lemma emit_frame_lifecycle:
  "streamStatus (snd (emit_frame f cs s)) = streamStatus s \<and> camera (snd (emit_frame f cs s)) = camera s"
  by (induction cs arbitrary: s) (simp_all add: frameHandler_def Let_def split_beta)

lemma on_frame_lifecycle:
  "streamStatus (stream (on_frame f w)) = streamStatus (stream w)"
  "camera (stream (on_frame f w)) = camera (stream w)"
  using emit_frame_lifecycle [of f "frame_listeners w" "stream w"]
  by (simp_all add: on_frame_def split_beta)

lemma route_handler_stream: "stream (case route_handler c w of Inl e \<Rightarrow> w | Inr w1 \<Rightarrow> w1) = stream w"
  by (simp add: route_handler_def Let_def split: option.splits)

lemma on_close_stream: "stream (on_close i w) = stream w"
  by (simp add: on_close_def)

subsection \<open>\<open>start\<close>\<close>

lemma initialize_flags: "streamStatus (snd (initialize env s)) = streamStatus s"
  by (simp add: initialize_def Let_def split: option.splits reply.splits)

lemma initialize_lastFrame: "lastFrame (snd (initialize env s)) = lastFrame s"
  by (simp add: initialize_def Let_def split: option.splits reply.splits)

lemma initialize_camera:
  "camera (snd (initialize env s)) = (if camera_module_loads env then Some RaspberryPiCameraNative else camera s)"
  by (simp add: initialize_def Let_def split: option.splits reply.splits)

lemma initialize_resolved:
  "fst (initialize env s) = Resolved u \<Longrightarrow> camera (snd (initialize env s)) = Some RaspberryPiCameraNative"
  by (auto simp: initialize_def Let_def split: option.splits reply.splits if_splits)

lemma start_stopped:
  "stopped (streamStatus s) \<Longrightarrow>
     start env s = (Rejected (LifecycleError ''[-] The stream cannot be started after it has been stopped''), s)"
  by (simp add: start_def)

lemma start_flags:
  "stopped (streamStatus (snd (start env s))) = stopped (streamStatus s)"
  "paused (streamStatus (snd (start env s))) = paused (streamStatus s)"
  "started (streamStatus s) \<Longrightarrow> started (streamStatus (snd (start env s)))"
  "lastFrame (snd (start env s)) = lastFrame s"
  using initialize_flags [of env s] initialize_lastFrame [of env s]
  by (auto simp: start_def listen_def Let_def
      split: prod.splits promise.splits option.splits reply.splits sum.splits)

lemma start_camera:
  "\<not> stopped (streamStatus s) \<Longrightarrow>
     camera (snd (start env s)) = (if camera_module_loads env then Some RaspberryPiCameraNative else camera s)"
  using initialize_camera [of env s]
  by (auto simp: start_def listen_def Let_def
      split: prod.splits promise.splits option.splits reply.splits sum.splits)

lemma start_started_camera:
  "started (streamStatus (snd (start env s))) \<Longrightarrow> \<not> started (streamStatus s) \<Longrightarrow>
     camera (snd (start env s)) \<noteq> None"
  using initialize_flags [of env s]
  by (auto simp: start_def listen_def Let_def
      split: prod.splits promise.splits option.splits reply.splits sum.splits if_splits)

lemma start_resolved:
  "fst (start env s) = Resolved u \<Longrightarrow> started (streamStatus (snd (start env s)))"
  by (auto simp: start_def listen_def Let_def
      split: prod.splits promise.splits option.splits reply.splits sum.splits if_splits)

subsection \<open>\<open>pause\<close>, \<open>resume\<close>, \<open>stop\<close>\<close>

lemma pause_cases:
  "snd (pause r s) = s
   \<or> (started (streamStatus s) \<and> camera s \<noteq> None \<and> r = Fires
      \<and> snd (pause r s) = s\<lparr>streamStatus := (streamStatus s)\<lparr>paused := True\<rparr>\<rparr>)"
  by (simp add: pause_def split: option.splits reply.splits)

lemma resume_cases:
  "snd (resume r s) = s
   \<or> (paused (streamStatus s) \<and> camera s \<noteq> None \<and> r = Fires
      \<and> snd (resume r s) = s\<lparr>streamStatus := (streamStatus s)\<lparr>paused := False\<rparr>\<rparr>)"
  by (simp add: resume_def split: option.splits reply.splits)

lemma stop_cases:
  "(fst (stop r s) \<noteq> Resolved () \<and> snd (stop r s) = s)
   \<or> (fst (stop r s) = Resolved () \<and> started (streamStatus s) \<and> camera s \<noteq> None \<and> r = Fires
      \<and> snd (stop r s) =
          s\<lparr>streamStatus := (streamStatus s)\<lparr>stopped := True, started := False\<rparr>, camera := None\<rparr>)"
  by (simp add: stop_def split: option.splits reply.splits)

subsection \<open>Consistency is kept\<close>

lemma consistent_new: "consistent (LiveStream cfg)"
  by (simp add: consistent_def LiveStream_def)

lemma consistent_eq:
  "streamStatus t = streamStatus s \<Longrightarrow> camera t = camera s \<Longrightarrow> consistent s \<Longrightarrow> consistent t"
  by (simp add: consistent_def)

lemma consistent_start: "consistent s \<Longrightarrow> consistent (snd (start env s))"
proof (cases "stopped (streamStatus s)")
  case True
  assume "consistent s"
  with True show ?thesis by (simp add: start_stopped)
next
  case False
  assume c: "consistent s"
  show ?thesis
  proof (cases "started (streamStatus s)")
    case True
    with c have "camera s \<noteq> None" by (simp add: consistent_def)
    with False True show ?thesis
      using start_flags(1,3) [where env = env and s = s] start_camera [where env = env and s = s]
      by (auto simp: consistent_def)
  next
    case nst: False
    with False show ?thesis
      using start_flags(1) [where env = env and s = s]
        start_started_camera [where env = env and s = s]
      by (auto simp: consistent_def)
  qed
qed

lemma consistent_pause: "consistent s \<Longrightarrow> consistent (snd (pause r s))"
  using pause_cases [of r s] by (auto simp: consistent_def)

lemma consistent_resume: "consistent s \<Longrightarrow> consistent (snd (resume r s))"
  using resume_cases [of r s] by (auto simp: consistent_def)

lemma consistent_stop: "consistent s \<Longrightarrow> consistent (snd (stop r s))"
  using stop_cases [of r s] by (auto simp: consistent_def)

lemma consistent_exec: "consistent (stream w) \<Longrightarrow> consistent (stream (exec x w))"
proof (cases x)
  case (Request c)
  assume "consistent (stream w)"
  with Request show ?thesis using route_handler_stream [where c = c and w = w] by simp
next
  case (Frame f)
  assume "consistent (stream w)"
  with Frame show ?thesis
    using on_frame_lifecycle [where f = f and w = w] by (simp add: consistent_def)
qed (auto intro: consistent_start consistent_pause consistent_resume consistent_stop
      elim: consistent_eq [rotated 2]
      simp: register_lifecycle setPort_lifecycle setPathname_lifecycle setVerboseMode_lifecycle
        setWidth_lifecycle setHeight_lifecycle setFPS_lifecycle setQuality_lifecycle
        setEncoding_lifecycle on_close_stream)

lemma consistent_run: "consistent (stream w) \<Longrightarrow> consistent (stream (run xs w))"
  by (induction xs arbitrary: w) (simp_all add: consistent_exec)

section \<open>The lifecycle\<close>

lemma start_all_fire:
  "resolved (fst (start all_fire (LiveStream default_config)))"
  "streamStatus (snd (start all_fire (LiveStream default_config)))
     = \<lparr>started = True, paused = False, stopped = False\<rparr>"
  "camera (snd (start all_fire (LiveStream default_config))) = Some RaspberryPiCameraNative"
  "lastFrame (snd (start all_fire (LiveStream default_config))) = None"
  "mimeType (snd (start all_fire (LiveStream default_config))) = None"
  "config (snd (start all_fire (LiveStream default_config))) = default_config"
  by (simp_all add: start_def initialize_def listen_def all_fire_def LiveStream_def Let_def)

lemma stopped_exec:
  assumes "stopped (streamStatus (stream w)) \<and> camera (stream w) = None"
  shows "stopped (streamStatus (stream (exec x w))) \<and> camera (stream (exec x w)) = None"
proof (cases x)
  case (Start env)
  with assms show ?thesis by (simp add: start_stopped)
next
  case (Pause r)
  with assms show ?thesis using pause_cases [of r "stream w"] by auto
next
  case (Resume r)
  with assms show ?thesis using resume_cases [of r "stream w"] by auto
next
  case (Stop r)
  with assms show ?thesis using stop_cases [of r "stream w"] by auto
next
  case (Request c)
  with assms show ?thesis using route_handler_stream [where c = c and w = w] by simp
next
  case (Frame f)
  with assms show ?thesis using on_frame_lifecycle [where f = f and w = w] by simp
qed (use assms in \<open>simp_all add: register_lifecycle setPort_lifecycle setPathname_lifecycle
      setVerboseMode_lifecycle setWidth_lifecycle setHeight_lifecycle setFPS_lifecycle
      setQuality_lifecycle setEncoding_lifecycle on_close_stream\<close>)

lemma stopped_run:
  "stopped (streamStatus (stream w)) \<and> camera (stream w) = None \<Longrightarrow>
     stopped (streamStatus (stream (run xs w))) \<and> camera (stream (run xs w)) = None"
proof (induction xs arbitrary: w)
  case Nil
  then show ?case by simp
next
  case (Cons x xs)
  from Cons.prems have "stopped (streamStatus (stream (exec x w))) \<and> camera (stream (exec x w)) = None"
    by (rule stopped_exec)
  then show ?case using Cons.IH by simp
qed

text \<open>
  C3. Once \<open>stop()\<close> has resolved, the object is stopped and holds no camera, and it
  stays so through every further sequence of operations and events; every \<open>start()\<close>
  after it is rejected with a lifecycle error and changes nothing.
\<close>

theorem stopped_is_terminal:
  assumes "fst (stop r (stream w)) = Resolved ()"
  shows "lifecycle_state (stream (run xs (exec (Stop r) w))) = Stopped
       \<and> camera (stream (run xs (exec (Stop r) w))) = None
       \<and> rejects_LifecycleError (fst (start env (stream (run xs (exec (Stop r) w)))))
       \<and> snd (start env (stream (run xs (exec (Stop r) w)))) = stream (run xs (exec (Stop r) w))"
proof -
  from assms stop_cases [of r "stream w"]
  have "stopped (streamStatus (stream (exec (Stop r) w))) \<and> camera (stream (exec (Stop r) w)) = None"
    by auto
  then have "stopped (streamStatus (stream (run xs (exec (Stop r) w))))
       \<and> camera (stream (run xs (exec (Stop r) w))) = None"
    by (rule stopped_run)
  then show ?thesis
    by (simp add: lifecycle_state_def start_stopped)
qed

theorem stopped_is_terminal_witness:
  "fst (stop Fires (stream (exec (Start all_fire) fresh_world))) = Resolved ()
   \<and> lifecycle_state (stream (run [Start all_fire, Resume Fires, Frame [1, 2]]
        (exec (Stop Fires) (exec (Start all_fire) fresh_world)))) = Stopped
   \<and> rejects_LifecycleError (fst (start all_fire (stream (run [Start all_fire, Resume Fires, Frame [1, 2]]
        (exec (Stop Fires) (exec (Start all_fire) fresh_world))))))"
proof -
  have h: "fst (stop Fires (stream (exec (Start all_fire) fresh_world))) = Resolved ()"
    by (simp add: fresh_world_def stop_def start_all_fire)
  show ?thesis
    using h stopped_is_terminal [OF h, of "[Start all_fire, Resume Fires, Frame [1, 2]]" all_fire]
    by simp
qed

section \<open>\<open>getLastFrame\<close>\<close>

lemma started_exec:
  assumes "started (streamStatus (stream w))" and "x \<noteq> Stop Fires"
  shows "started (streamStatus (stream (exec x w)))"
proof (cases x)
  case (Start env)
  with assms show ?thesis by (simp add: start_flags)
next
  case (Pause r)
  with assms show ?thesis using pause_cases [of r "stream w"] by auto
next
  case (Resume r)
  with assms show ?thesis using resume_cases [of r "stream w"] by auto
next
  case (Stop r)
  with assms show ?thesis using stop_cases [of r "stream w"] by auto
next
  case (Request c)
  with assms show ?thesis using route_handler_stream [where c = c and w = w] by simp
next
  case (Frame f)
  with assms show ?thesis using on_frame_lifecycle [where f = f and w = w] by simp
qed (use assms in \<open>simp_all add: register_lifecycle setPort_lifecycle setPathname_lifecycle
      setVerboseMode_lifecycle setWidth_lifecycle setHeight_lifecycle setFPS_lifecycle
      setQuality_lifecycle setEncoding_lifecycle on_close_stream\<close>)

lemma started_run:
  "started (streamStatus (stream w)) \<Longrightarrow> Stop Fires \<notin> set xs \<Longrightarrow>
     started (streamStatus (stream (run xs w)))"
proof (induction xs arbitrary: w)
  case Nil
  then show ?case by simp
next
  case (Cons x xs)
  from Cons.prems have "started (streamStatus (stream (exec x w)))"
    by (auto intro: started_exec)
  with Cons.prems Cons.IH show ?case by simp
qed

lemma not_started_exec:
  assumes "stopped (streamStatus (stream w)) \<and> camera (stream w) = None"
    and "\<not> started (streamStatus (stream w))"
  shows "\<not> started (streamStatus (stream (exec x w)))"
proof (cases x)
  case (Start env)
  with assms show ?thesis by (simp add: start_stopped)
next
  case (Pause r)
  with assms show ?thesis using pause_cases [of r "stream w"] by auto
next
  case (Resume r)
  with assms show ?thesis using resume_cases [of r "stream w"] by auto
next
  case (Stop r)
  with assms show ?thesis using stop_cases [of r "stream w"] by auto
next
  case (Request c)
  with assms show ?thesis using route_handler_stream [where c = c and w = w] by simp
next
  case (Frame f)
  with assms show ?thesis using on_frame_lifecycle [where f = f and w = w] by simp
qed (use assms in \<open>simp_all add: register_lifecycle setPort_lifecycle setPathname_lifecycle
      setVerboseMode_lifecycle setWidth_lifecycle setHeight_lifecycle setFPS_lifecycle
      setQuality_lifecycle setEncoding_lifecycle on_close_stream\<close>)

lemma not_started_run:
  "stopped (streamStatus (stream w)) \<and> camera (stream w) = None \<Longrightarrow>
   \<not> started (streamStatus (stream w)) \<Longrightarrow>
     \<not> started (streamStatus (stream (run ys w)))"
proof (induction ys arbitrary: w)
  case Nil
  then show ?case by simp
next
  case (Cons y ys)
  have a: "stopped (streamStatus (stream (exec y w))) \<and> camera (stream (exec y w)) = None"
    using Cons.prems(1) by (rule stopped_exec)
  have b: "\<not> started (streamStatus (stream (exec y w)))"
    using Cons.prems by (rule not_started_exec)
  from a b show ?case using Cons.IH by simp
qed

text \<open>
  C4 (amended). After a \<open>start()\<close> that resolved, and as long as no \<open>stop()\<close> has run
  to its callback, \<open>getLastFrame()\<close> does not throw, whatever else was called in
  between, \<open>pause()\<close> and \<open>resume()\<close> included: it returns the last frame, \<open>null\<close> when
  there is none. After a \<open>stop()\<close> that resolved, \<open>getLastFrame()\<close> throws the
  lifecycle error, directly after it and after every further sequence of operations
  and events, because \<open>stop\<close> clears the flag \<open>started\<close> that \<open>getLastFrame\<close> tests
  and nothing sets it again.
\<close>

theorem getLastFrame_until_stop:
  assumes "resolved (fst (start env (stream w)))" and "Stop Fires \<notin> set xs"
  shows "getLastFrame (stream (run xs (exec (Start env) w)))
           = Inr (lastFrame (stream (run xs (exec (Start env) w))))
       \<and> (fst (stop r (stream (run xs (exec (Start env) w)))) = Resolved () \<longrightarrow>
            throws_LifecycleError
              (getLastFrame (stream (run ys (exec (Stop r) (run xs (exec (Start env) w)))))))"
proof -
  from assms(1) have "started (streamStatus (stream (exec (Start env) w)))"
    by (cases "fst (start env (stream w))") (simp_all add: start_resolved)
  then have "started (streamStatus (stream (run xs (exec (Start env) w))))"
    using assms(2) by (rule started_run)
  then have a: "getLastFrame (stream (run xs (exec (Start env) w)))
           = Inr (lastFrame (stream (run xs (exec (Start env) w))))"
    by (simp add: getLastFrame_def)
  have b: "fst (stop r (stream (run xs (exec (Start env) w)))) = Resolved () \<longrightarrow>
            throws_LifecycleError
              (getLastFrame (stream (run ys (exec (Stop r) (run xs (exec (Start env) w))))))"
  proof
    assume res: "fst (stop r (stream (run xs (exec (Start env) w)))) = Resolved ()"
    have s1: "stopped (streamStatus (stream (exec (Stop r) (run xs (exec (Start env) w)))))
        \<and> camera (stream (exec (Stop r) (run xs (exec (Start env) w)))) = None"
      using res stop_cases [of r "stream (run xs (exec (Start env) w))"] by auto
    have s2: "\<not> started (streamStatus (stream (exec (Stop r) (run xs (exec (Start env) w)))))"
      using res stop_cases [of r "stream (run xs (exec (Start env) w))"] by auto
    have "\<not> started (streamStatus (stream (run ys (exec (Stop r) (run xs (exec (Start env) w))))))"
      using s1 s2 by (rule not_started_run)
    then show "throws_LifecycleError
        (getLastFrame (stream (run ys (exec (Stop r) (run xs (exec (Start env) w))))))"
      by (simp add: getLastFrame_def)
  qed
  from a b show ?thesis by (rule conjI)
qed

theorem getLastFrame_until_stop_witness:
  "resolved (fst (start all_fire (stream fresh_world)))
   \<and> Stop Fires \<notin> set [Pause Fires, Resume Fires, Stop Silent]
   \<and> getLastFrame (stream (run [Pause Fires, Resume Fires, Stop Silent] (exec (Start all_fire) fresh_world)))
       = Inr None
   \<and> fst (stop Fires (stream (run [Pause Fires, Resume Fires, Stop Silent]
          (exec (Start all_fire) fresh_world)))) = Resolved ()
   \<and> throws_LifecycleError (getLastFrame (stream (run [Start all_fire, Pause Fires, Frame [1, 2]]
        (exec (Stop Fires)
          (run [Pause Fires, Resume Fires, Stop Silent] (exec (Start all_fire) fresh_world))))))"
proof -
  have h: "resolved (fst (start all_fire (stream fresh_world)))"
    by (simp add: fresh_world_def start_all_fire)
  have n: "Stop Fires \<notin> set [Pause Fires, Resume Fires, Stop Silent]" by simp
  have r: "fst (stop Fires (stream (run [Pause Fires, Resume Fires, Stop Silent]
          (exec (Start all_fire) fresh_world)))) = Resolved ()"
    by (simp add: fresh_world_def pause_def resume_def stop_def start_all_fire)
  have g: "getLastFrame (stream (run [Pause Fires, Resume Fires, Stop Silent]
          (exec (Start all_fire) fresh_world))) = Inr None"
    by (simp add: fresh_world_def pause_def resume_def stop_def getLastFrame_def start_all_fire)
  have t: "throws_LifecycleError (getLastFrame (stream (run [Start all_fire, Pause Fires, Frame [1, 2]]
        (exec (Stop Fires)
          (run [Pause Fires, Resume Fires, Stop Silent] (exec (Start all_fire) fresh_world))))))"
    using r getLastFrame_until_stop [OF h n, of Fires "[Start all_fire, Pause Fires, Frame [1, 2]]"]
    by blast
  from h n g r t show ?thesis by blast
qed

text \<open>
  The claim as stated, calls after \<open>stop()\<close> included, fails on the sequence
  \<open>start\<close>, \<open>stop\<close>, \<open>getLastFrame\<close>.
\<close>

theorem getLastFrame_after_stop_counterexample:
  "resolved (fst (start all_fire (stream fresh_world)))
   \<and> fst (stop Fires (stream (exec (Start all_fire) fresh_world))) = Resolved ()
   \<and> throws_LifecycleError (getLastFrame (stream (run [Start all_fire, Stop Fires] fresh_world)))"
  by (simp add: fresh_world_def stop_def getLastFrame_def start_all_fire)

section \<open>\<open>pause\<close>\<close>

lemma reachable_consistent:
  "consistent (stream (run xs \<lparr>stream = LiveStream cfg, frame_listeners = ls, globals = g\<rparr>))"
  by (rule consistent_run) (simp add: consistent_new)

text \<open>
  C6 (amended). The guard of \<open>pause()\<close> tests the flag \<open>started\<close> alone. From idle and
  from stopped the flag is unset: \<open>pause()\<close> is rejected with a lifecycle error and the
  object is unchanged. From started and also from paused the flag is set: \<open>pause()\<close>
  calls the camera, and once the callback fires it resolves and the state is paused.
  (The states are those of consistent objects, which all reachable objects are.)
\<close>

theorem pause_guard:
  assumes "consistent s"
  shows "(lifecycle_state s = Idle \<or> lifecycle_state s = Stopped \<longrightarrow>
            rejects_LifecycleError (fst (pause r s)) \<and> snd (pause r s) = s)
       \<and> (lifecycle_state s = Started \<or> lifecycle_state s = Paused \<longrightarrow>
            pause Fires s = (Resolved (), s\<lparr>streamStatus := (streamStatus s)\<lparr>paused := True\<rparr>\<rparr>)
            \<and> lifecycle_state (snd (pause Fires s)) = Paused)"
proof -
  have a: "lifecycle_state s = Idle \<or> lifecycle_state s = Stopped \<longrightarrow>
            rejects_LifecycleError (fst (pause r s)) \<and> snd (pause r s) = s"
    using assms by (auto simp: lifecycle_state_def consistent_def pause_def split: if_splits)
  have b: "lifecycle_state s = Started \<or> lifecycle_state s = Paused \<longrightarrow>
            pause Fires s = (Resolved (), s\<lparr>streamStatus := (streamStatus s)\<lparr>paused := True\<rparr>\<rparr>)
            \<and> lifecycle_state (snd (pause Fires s)) = Paused"
    using assms by (auto simp: lifecycle_state_def consistent_def pause_def split: if_splits)
  from a b show ?thesis by (rule conjI)
qed

theorem pause_guard_witness:
  "consistent (stream (run [Start all_fire] fresh_world))
   \<and> lifecycle_state (stream (run [Start all_fire] fresh_world)) = Started
   \<and> fst (pause Fires (stream (run [Start all_fire] fresh_world))) = Resolved ()
   \<and> lifecycle_state (snd (pause Fires (stream (run [Start all_fire] fresh_world)))) = Paused
   \<and> consistent (stream fresh_world)
   \<and> lifecycle_state (stream fresh_world) = Idle
   \<and> rejects_LifecycleError (fst (pause Fires (stream fresh_world)))
   \<and> snd (pause Fires (stream fresh_world)) = stream fresh_world"
proof -
  have c1: "consistent (stream (run [Start all_fire] fresh_world))"
    unfolding fresh_world_def by (rule reachable_consistent)
  have c0: "consistent (stream fresh_world)"
    by (simp add: fresh_world_def consistent_new)
  have l1: "lifecycle_state (stream (run [Start all_fire] fresh_world)) = Started"
    by (simp add: fresh_world_def lifecycle_state_def start_all_fire)
  have l0: "lifecycle_state (stream fresh_world) = Idle"
    by (simp add: fresh_world_def lifecycle_state_def LiveStream_def)
  show ?thesis
    using c1 c0 l1 l0
      pause_guard [OF c1, of Fires] pause_guard [OF c0, of Fires]
    by (simp add: fresh_world_def lifecycle_state_def pause_def start_all_fire)
qed

text \<open>
  The claim as stated fails from the paused state: after \<open>start\<close> and \<open>pause\<close>, a second
  \<open>pause()\<close> is not rejected but resolves.
\<close>

theorem pause_from_paused_counterexample:
  "lifecycle_state (stream (run [Start all_fire, Pause Fires] fresh_world)) = Paused
   \<and> fst (pause Fires (stream (run [Start all_fire, Pause Fires] fresh_world))) = Resolved ()
   \<and> \<not> rejects_LifecycleError (fst (pause Fires (stream (run [Start all_fire, Pause Fires] fresh_world))))"
  by (simp add: fresh_world_def lifecycle_state_def pause_def start_all_fire)

section \<open>\<open>stop\<close> and the snapshot\<close>

lemma base64_FF_D8: "base64 [0xFF, 0xD8] = ''/9g=''"
  by (simp add: base64_def b64_char_def b64_alphabet_def)


lemma emit_frame_rest:
  "mimeType (snd (emit_frame f cs s)) = mimeType s"
  "config (snd (emit_frame f cs s)) = config s"
  by (induction cs arbitrary: s) (simp_all add: frameHandler_def Let_def split_beta)

text \<open>
  The world after \<open>start\<close>, one request on the route and one frame of two bytes:
  the frame is the last frame, the MIME type is still \<open>null\<close>.
\<close>

lemma one_frame:
  "lastFrame (stream (run [Start all_fire, Request (client 1), Frame [0xFF, 0xD8]] fresh_world))
     = Some [0xFF, 0xD8]"
  "mimeType (stream (run [Start all_fire, Request (client 1), Frame [0xFF, 0xD8]] fresh_world)) = None"
  "streamStatus (stream (run [Start all_fire, Request (client 1), Frame [0xFF, 0xD8]] fresh_world))
     = \<lparr>started = True, paused = False, stopped = False\<rparr>"
  "camera (stream (run [Start all_fire, Request (client 1), Frame [0xFF, 0xD8]] fresh_world))
     = Some RaspberryPiCameraNative"
  "config (stream (run [Start all_fire, Request (client 1), Frame [0xFF, 0xD8]] fresh_world))
     = default_config"
  by (simp_all add: fresh_world_def route_handler_def on_frame_def frameHandler_def split_beta
      Let_def client_def start_all_fire)

text \<open>
  C9. Whatever the camera answers, \<open>stop()\<close> leaves the last frame, the config, the
  MIME type, the path name, the server binding, the verbose flag and the flag \<open>paused\<close>
  as they were, so \<open>getSnapshot()\<close> gives after \<open>stop()\<close> what it gave before. When
  \<open>stop()\<close> resolves it has set \<open>stopped\<close>, cleared \<open>started\<close> and set the camera to
  \<open>null\<close>, and nothing else; when it does not resolve it has changed nothing.
\<close>

theorem stop_frame_condition:
  "lastFrame (snd (stop r s)) = lastFrame s
   \<and> config (snd (stop r s)) = config s
   \<and> mimeType (snd (stop r s)) = mimeType s
   \<and> pathname (snd (stop r s)) = pathname s
   \<and> server (snd (stop r s)) = server s
   \<and> verboseMode (snd (stop r s)) = verboseMode s
   \<and> paused (streamStatus (snd (stop r s))) = paused (streamStatus s)
   \<and> getSnapshot (snd (stop r s)) = getSnapshot s
   \<and> (fst (stop r s) = Resolved () \<longrightarrow>
        snd (stop r s) =
          s\<lparr>streamStatus := (streamStatus s)\<lparr>stopped := True, started := False\<rparr>, camera := None\<rparr>)
   \<and> (fst (stop r s) \<noteq> Resolved () \<longrightarrow> snd (stop r s) = s)"
proof -
  consider
    (unchanged) "fst (stop r s) \<noteq> Resolved ()" and "snd (stop r s) = s"
  | (stopped) "fst (stop r s) = Resolved ()" and
      "snd (stop r s) =
         s\<lparr>streamStatus := (streamStatus s)\<lparr>stopped := True, started := False\<rparr>, camera := None\<rparr>"
    using stop_cases [of r s] by blast
  then show ?thesis
  proof cases
    case unchanged
    then show ?thesis by simp
  next
    case stopped
    then show ?thesis by (simp add: getSnapshot_def split: option.splits)
  qed
qed

theorem stop_frame_condition_witness:
  "fst (stop Fires (stream (run [Start all_fire, Request (client 1), Frame [0xFF, 0xD8]] fresh_world)))
     = Resolved ()
   \<and> stopped (streamStatus (snd (stop Fires
        (stream (run [Start all_fire, Request (client 1), Frame [0xFF, 0xD8]] fresh_world)))))
   \<and> camera (snd (stop Fires
        (stream (run [Start all_fire, Request (client 1), Frame [0xFF, 0xD8]] fresh_world)))) = None
   \<and> lastFrame (snd (stop Fires
        (stream (run [Start all_fire, Request (client 1), Frame [0xFF, 0xD8]] fresh_world))))
       = Some [0xFF, 0xD8]
   \<and> getSnapshot (snd (stop Fires
        (stream (run [Start all_fire, Request (client 1), Frame [0xFF, 0xD8]] fresh_world))))
       = Resolved (Some ''data:null;base64,/9g='')"
proof -
  have h: "fst (stop Fires (stream (run [Start all_fire, Request (client 1), Frame [0xFF, 0xD8]] fresh_world)))
     = Resolved ()"
    using one_frame(3,4) unfolding stop_def by simp
  have g: "getSnapshot (stream (run [Start all_fire, Request (client 1), Frame [0xFF, 0xD8]] fresh_world))
     = Resolved (Some ''data:null;base64,/9g='')"
    using one_frame(1,2) unfolding getSnapshot_def by (simp add: mime_toString_def base64_FF_D8)
  show ?thesis
    using h g one_frame(1)
      stop_frame_condition
        [of Fires "stream (run [Start all_fire, Request (client 1), Frame [0xFF, 0xD8]] fresh_world)"]
    by auto
qed

text \<open>
  C5. On a new object with the default config, started, with one client and one frame
  \<open>FF D8\<close>, the encoding is \<open>JPEG\<close> and \<open>getSnapshot()\<close> resolves to a string that
  begins \<open>data:null;base64,\<close>, not \<open>data:image/jpeg;base64,\<close>: the constructor sets
  \<open>mimeType\<close> to \<open>null\<close> and only \<open>setEncoding\<close> assigns it.
\<close>

theorem getSnapshot_default_mime:
  "encoding (config (stream (run [Start all_fire, Request (client 1), Frame [0xFF, 0xD8]] fresh_world)))
     = ''JPEG''
   \<and> getSnapshot (stream (run [Start all_fire, Request (client 1), Frame [0xFF, 0xD8]] fresh_world))
     = Resolved (Some ''data:null;base64,/9g='')
   \<and> getSnapshot (stream fresh_world) = Resolved None"
proof -
  have "getSnapshot (stream (run [Start all_fire, Request (client 1), Frame [0xFF, 0xD8]] fresh_world))
     = Resolved (Some ''data:null;base64,/9g='')"
    using one_frame(1,2) unfolding getSnapshot_def by (simp add: mime_toString_def base64_FF_D8)
  moreover have "getSnapshot (stream fresh_world) = Resolved None"
    by (simp add: getSnapshot_def fresh_world_def LiveStream_def)
  ultimately show ?thesis
    using one_frame(5) by (simp add: default_config_def)
qed

section \<open>Frames and the last-frame buffer\<close>




section \<open>\<open>getSupportedEncodingTypes\<close>\<close>

text \<open>
  \<open>getSupportedEncodingTypes()\<close> joins the static list of the class with commas: the
  result is the same string in every state, since the method reads no field of the object.
\<close>

theorem getSupportedEncodingTypes_string:
  "getSupportedEncodingTypes = ''JPEG,GIF,PNG,PPM,TGA,BMP''"
  by (simp add: getSupportedEncodingTypes_def supportedEncodingTypes_def)


end
